theory Spec2Isabelle
  imports Complex_Main "HOL-Library.Char_ord" "HOL-Library.List_Lexorder" "HOL-Library.Multiset"
begin

section \<open>JavaScript numbers\<close>

text \<open>
  Every amount of the application is a JavaScript \<open>number\<close>: an IEEE 754 binary64
  value. A finite value is kept as the rational it denotes; the two infinities and NaN
  are separate constructors. The two zeros are identified: the code below never divides
  by a variable, so the sign of a zero is never observed. Each arithmetic operation
  computes the exact rational result and rounds it with \<open>fl\<close> (round to nearest, ties
  to even, 53 bits of precision, exponents from -1022 to 1023, gradual underflow).
\<close>

datatype number = Finite rat | PosInf | NegInf | NaN

definition pow2 :: "int \<Rightarrow> rat" where
  "pow2 e = 2 powi e"

function bitlen :: "int \<Rightarrow> int" where
  "bitlen n = (if n \<le> 0 then 0 else 1 + bitlen (n div 2))"
  by pat_completeness auto
termination
  by (relation "measure nat") auto

declare bitlen.simps [simp del]

text \<open>\<open>floor_log2 x\<close> is the exponent \<open>e\<close> with \<open>2^e \<le> x < 2^(e+1)\<close>, for \<open>x > 0\<close>.\<close>

definition floor_log2 :: "rat \<Rightarrow> int" where
  "floor_log2 x =
     (let (a, b) = quotient_of x;
          d = bitlen a - bitlen b
      in if pow2 d \<le> x then d else d - 1)"

definition round_half_even :: "rat \<Rightarrow> int" where
  "round_half_even m =
     (let f = \<lfloor>m\<rfloor>; d = m - of_int f
      in if d < 1 / 2 then f else if 1 / 2 < d then f + 1
         else if even f then f else f + 1)"

definition fl :: "rat \<Rightarrow> number" where
  "fl x =
     (if x = 0 then Finite 0
      else
        let e = max (floor_log2 \<bar>x\<bar>) (- 1022);
            q = pow2 (e - 52);
            n = round_half_even (x / q)
        in if 1024 \<le> e \<or> (e = 1023 \<and> 2 ^ 53 \<le> \<bar>n\<bar>)
           then (if 0 < x then PosInf else NegInf)
           else Finite (of_int n * q))"

text \<open>The values a JavaScript number can take: the rationals that \<open>fl\<close> leaves alone,
  the infinities and NaN.\<close>

definition is_double :: "number \<Rightarrow> bool" where
  "is_double v = (case v of Finite x \<Rightarrow> fl x = Finite x | _ \<Rightarrow> True)"

definition fsign :: "number \<Rightarrow> int" where
  "fsign v = (case v of Finite x \<Rightarrow> (if 0 < x then 1 else if x < 0 then - 1 else 0)
                       | PosInf \<Rightarrow> 1 | NegInf \<Rightarrow> - 1 | NaN \<Rightarrow> 0)"

definition fneg :: "number \<Rightarrow> number" where
  "fneg v = (case v of Finite x \<Rightarrow> Finite (- x) | PosInf \<Rightarrow> NegInf
                      | NegInf \<Rightarrow> PosInf | NaN \<Rightarrow> NaN)"

text \<open>\<open>a + b\<close>\<close>

definition fadd :: "number \<Rightarrow> number \<Rightarrow> number" where
  "fadd v w =
     (case (v, w) of
        (Finite a, Finite b) \<Rightarrow> fl (a + b)
      | (NaN, _) \<Rightarrow> NaN
      | (_, NaN) \<Rightarrow> NaN
      | (PosInf, NegInf) \<Rightarrow> NaN
      | (NegInf, PosInf) \<Rightarrow> NaN
      | (PosInf, _) \<Rightarrow> PosInf
      | (NegInf, _) \<Rightarrow> NegInf
      | (Finite a, w') \<Rightarrow> w')"

text \<open>\<open>a - b\<close>\<close>

definition fsub :: "number \<Rightarrow> number \<Rightarrow> number" where
  "fsub v w = fadd v (fneg w)"

text \<open>\<open>a * b\<close>\<close>

definition fmul :: "number \<Rightarrow> number \<Rightarrow> number" where
  "fmul v w =
     (case (v, w) of
        (Finite a, Finite b) \<Rightarrow> fl (a * b)
      | _ \<Rightarrow> if v = NaN \<or> w = NaN \<or> fsign v * fsign w = 0 then NaN
             else if 0 < fsign v * fsign w then PosInf else NegInf)"

text \<open>\<open>a / b\<close>. The code divides by the literals 100 and 2 only.\<close>

definition fdiv :: "number \<Rightarrow> number \<Rightarrow> number" where
  "fdiv v w =
     (case (v, w) of
        (Finite a, Finite b) \<Rightarrow>
          (if b = 0 then (if a = 0 then NaN else if 0 < a then PosInf else NegInf)
           else fl (a / b))
      | (Finite a, PosInf) \<Rightarrow> Finite 0
      | (Finite a, NegInf) \<Rightarrow> Finite 0
      | (PosInf, Finite b) \<Rightarrow> (if b < 0 then NegInf else PosInf)
      | (NegInf, Finite b) \<Rightarrow> (if b < 0 then PosInf else NegInf)
      | _ \<Rightarrow> NaN)"

text \<open>\<open>a || 0\<close> on a number: the falsy numbers are the zeros and NaN.\<close>

definition or_zero :: "number \<Rightarrow> number" where
  "or_zero v = (if v = NaN \<or> v = Finite 0 then Finite 0 else v)"

text \<open>\<open>a >= b\<close>\<close>

definition fge :: "number \<Rightarrow> number \<Rightarrow> bool" where
  "fge v w =
     (case (v, w) of
        (Finite a, Finite b) \<Rightarrow> b \<le> a
      | (NaN, _) \<Rightarrow> False
      | (_, NaN) \<Rightarrow> False
      | (PosInf, _) \<Rightarrow> True
      | (_, NegInf) \<Rightarrow> True
      | _ \<Rightarrow> False)"

text \<open>\<open>Math.abs(a)\<close>\<close>

definition fabs :: "number \<Rightarrow> number" where
  "fabs v = (case v of Finite x \<Rightarrow> Finite \<bar>x\<bar> | PosInf \<Rightarrow> PosInf
                      | NegInf \<Rightarrow> PosInf | NaN \<Rightarrow> NaN)"

text \<open>The left-to-right sum that \<open>reduce((sum, x) => sum + x, 0)\<close> computes.\<close>

definition fsum :: "number list \<Rightarrow> number" where
  "fsum vs = foldl fadd (Finite 0) vs"

text \<open>Two numbers agree "within 1e-9 or exactly".\<close>

definition approx_eq :: "number \<Rightarrow> number \<Rightarrow> bool" where
  "approx_eq v w =
     (v = w \<or> (case (v, w) of (Finite a, Finite b) \<Rightarrow> \<bar>a - b\<bar> \<le> 1 / 10 ^ 9 | _ \<Rightarrow> False))"

section \<open>Numbers as decimal texts\<close>

text \<open>
  A number leaves the program as a decimal text: in the body of a request (\<open>JSON.stringify\<close>)
  and on the page (\<open>toLocaleString\<close>). The text of a finite number is the one of
  \<open>Number::toString\<close>: of the decimals that round to the number, the one with the fewest
  significant digits, and of several such the closest to it. \<open>shortest_decimal x\<close> is
  the value of that text; seventeen significant digits identify every double, so the search
  ends within seventeen steps.
\<close>

definition pow10 :: "int \<Rightarrow> rat" where
  "pow10 e = 10 powi e"

function declen :: "int \<Rightarrow> int" where
  "declen n = (if n \<le> 0 then 0 else 1 + declen (n div 10))"
  by pat_completeness auto
termination
  by (relation "measure nat") auto

declare declen.simps [simp del]

text \<open>\<open>floor_log10 x\<close> is the exponent \<open>e\<close> with \<open>10^e \<le> x < 10^(e+1)\<close>, for \<open>x > 0\<close>.\<close>

definition floor_log10 :: "rat \<Rightarrow> int" where
  "floor_log10 x =
     (let (a, b) = quotient_of x;
          d = declen a - declen b
      in if pow10 d \<le> x then d else d - 1)"

text \<open>The multiples of \<open>10^p\<close> next to \<open>x\<close> that round to \<open>x\<close>.\<close>

definition decimals_at :: "rat \<Rightarrow> int \<Rightarrow> rat list" where
  "decimals_at x p =
     (let s = \<lfloor>x / pow10 p\<rfloor>
      in filter (\<lambda>d. fl d = Finite x) [of_int s * pow10 p, of_int (s + 1) * pow10 p])"

definition nearer :: "rat \<Rightarrow> int \<Rightarrow> rat \<Rightarrow> rat \<Rightarrow> rat" where
  "nearer x p lo hi =
     (if x - lo < hi - x then lo else if hi - x < x - lo then hi
      else if even \<lfloor>lo / pow10 p\<rfloor> then lo else hi)"

fun shortest_from :: "nat \<Rightarrow> rat \<Rightarrow> int \<Rightarrow> rat" where
  "shortest_from 0 x p = x"
| "shortest_from (Suc n) x p =
     (case decimals_at x p of
        [] \<Rightarrow> shortest_from n x (p - 1)
      | [d] \<Rightarrow> d
      | lo # hi # _ \<Rightarrow> nearer x p lo hi)"

definition shortest_decimal :: "rat \<Rightarrow> rat" where
  "shortest_decimal x =
     (if x = 0 then 0
      else if 0 < x then shortest_from 17 x (floor_log10 x)
      else - shortest_from 17 (- x) (floor_log10 (- x)))"

text \<open>Rounding to an integer, a tie going away from zero.\<close>

definition round_half_away :: "rat \<Rightarrow> int" where
  "round_half_away m = (if 0 \<le> m then \<lfloor>m + 1 / 2\<rfloor> else - \<lfloor>- m + 1 / 2\<rfloor>)"

text \<open>The decimal digits of an integer that is not negative, and the grouping of the digits
  of the locale \<open>en-IN\<close>: the last three digits, and groups of two before them.\<close>

function digits_of :: "int \<Rightarrow> string" where
  "digits_of n =
     (if n < 10 then [''0123456789'' ! nat n]
      else digits_of (n div 10) @ [''0123456789'' ! nat (n mod 10)])"
  by pat_completeness auto
termination
  by (relation "measure nat") auto

declare digits_of.simps [simp del]

fun chunks2 :: "string \<Rightarrow> string list" where
  "chunks2 (a # b # c # rest) = [a, b] # chunks2 (c # rest)"
| "chunks2 ds = [ds]"

definition group_en_IN :: "string \<Rightarrow> string" where
  "group_en_IN ds =
     (if length ds \<le> 3 then ds
      else rev (take 3 (rev ds)
                @ concat (map (\<lambda>g. CHR '','' # g) (chunks2 (drop 3 (rev ds))))))"

text \<open>\<open>Math.abs(v).toLocaleString('en-IN', { minimumFractionDigits: 2 })\<close>: the decimal text
  of the magnitude is rounded to three fraction digits, a tie going up, and shown with the
  digits grouped and with two fraction digits, or three when the third is not 0. The
  infinity sign is given by the three bytes of its UTF-8 encoding.\<close>

definition magnitude_text :: "number \<Rightarrow> string" where
  "magnitude_text v =
     (case v of
        NaN \<Rightarrow> ''NaN''
      | PosInf \<Rightarrow> [CHR 0xE2, CHR 0x88, CHR 0x9E]
      | NegInf \<Rightarrow> [CHR 0xE2, CHR 0x88, CHR 0x9E]
      | Finite x \<Rightarrow>
          (let n = round_half_away (\<bar>shortest_decimal x\<bar> * 1000);
               f = n mod 1000
           in group_en_IN (digits_of (n div 1000)) @ ''.''
              @ [''0123456789'' ! nat (f div 100), ''0123456789'' ! nat (f div 10 mod 10)]
              @ (if f mod 10 = 0 then [] else [''0123456789'' ! nat (f mod 10)])))"

section \<open>Data model\<close>

type_synonym uuid = nat

datatype supply_type = IntraState | InterState | NotApplicable

datatype invoice_status = Draft | Sent | Paid | Overdue

datatype account_type = Income | Expense | Asset | Liability

subsection \<open>Invoice line items (\<open>CreateEditInvoice.tsx\<close>)\<close>

text \<open>The item of the form, and the item with the computed fields that \<open>onSubmit\<close>
  attaches to it.\<close>

record line_item =
  product_service_id :: string
  item_description :: string
  quantity :: number
  rate :: number
  gst_rate_percentage :: number

record computed_item = line_item +
  item_total_amount :: number
  cgst_amount :: number
  sgst_amount :: number
  igst_amount :: number
  item_gst_total :: number

text \<open>The body of \<open>data.items.map(item => ...)\<close> in \<open>onSubmit\<close>.\<close>

definition compute_item :: "supply_type \<Rightarrow> line_item \<Rightarrow> computed_item" where
  "compute_item supply item =
     (let itemTotal = fmul (quantity item) (rate item);
          gstRate = gst_rate_percentage item;
          gstAmount = fdiv (fmul itemTotal gstRate) (Finite 100)
      in \<lparr> product_service_id = product_service_id item,
           item_description = item_description item,
           quantity = quantity item,
           rate = rate item,
           gst_rate_percentage = gstRate,
           item_total_amount = itemTotal,
           cgst_amount = (if supply = IntraState then fdiv gstAmount (Finite 2) else Finite 0),
           sgst_amount = (if supply = IntraState then fdiv gstAmount (Finite 2) else Finite 0),
           igst_amount = (if supply = InterState then gstAmount else Finite 0),
           item_gst_total = gstAmount \<rparr>)"

record invoice_totals =
  subTotal :: number
  totalGst :: number
  totalAmount :: number

text \<open>The two \<open>reduce\<close> calls and the sum that follow the map.\<close>

definition aggregate :: "computed_item list \<Rightarrow> invoice_totals" where
  "aggregate its =
     (let sub = foldl (\<lambda>sum item. fadd sum (item_total_amount item)) (Finite 0) its;
          gst = foldl (\<lambda>sum item. fadd sum (item_gst_total item)) (Finite 0) its
      in \<lparr> subTotal = sub, totalGst = gst, totalAmount = fadd sub gst \<rparr>)"

subsection \<open>Expenses (\<open>CreateEditExpense.tsx\<close>)\<close>

record gst_amounts =
  gstPaidAmount :: number
  cgstInputCredit :: number
  sgstInputCredit :: number
  igstInputCredit :: number
  totalAmount :: number

definition calculateGSTAmounts :: "number \<Rightarrow> number \<Rightarrow> supply_type \<Rightarrow> gst_amounts" where
  "calculateGSTAmounts amountBeforeGST gstRate supplyType =
     (let gstAmount = fdiv (fmul amountBeforeGST gstRate) (Finite 100)
      in if supplyType = NotApplicable then
           \<lparr> gstPaidAmount = Finite 0, cgstInputCredit = Finite 0, sgstInputCredit = Finite 0,
             igstInputCredit = Finite 0, totalAmount = amountBeforeGST \<rparr>
         else if supplyType = IntraState then
           \<lparr> gstPaidAmount = gstAmount, cgstInputCredit = fdiv gstAmount (Finite 2),
             sgstInputCredit = fdiv gstAmount (Finite 2), igstInputCredit = Finite 0,
             totalAmount = fadd amountBeforeGST gstAmount \<rparr>
         else
           \<lparr> gstPaidAmount = gstAmount, cgstInputCredit = Finite 0, sgstInputCredit = Finite 0,
             igstInputCredit = gstAmount, totalAmount = fadd amountBeforeGST gstAmount \<rparr>)"

section \<open>The store\<close>

text \<open>
  The tables of the migration, as lists of rows with the columns the code reads or writes
  (\<open>created_at\<close> is left out, and the generated \<open>id\<close> of an invoice item). The store is
  the generic one the application is written against: a query is a chain of filters over a
  table, an update maps over the rows that match, an insert appends, and a fresh \<open>id\<close> is
  drawn from a counter. The requests that save an invoice are modelled with what the schema
  of the migration does to them: the \<open>numeric\<close> columns, the \<open>uuid\<close> column of a line, the
  check on the place of supply, the foreign key of a line and the row-level policies.
\<close>

record company_profile =
  id :: uuid
  user_id :: uuid
  company_name :: string
  company_address :: "string option"
  gstin :: "string option"
  logo_url :: "string option"
  fiscal_year_start_month :: nat

record account =
  id :: uuid
  company_id :: uuid
  account_name :: string
  account_type :: account_type
  is_default :: bool

record invoice =
  id :: uuid
  company_id :: uuid
  customer_name :: string
  customer_gstin :: "string option"
  invoice_number :: string
  invoice_date :: string
  due_date :: "string option"
  sub_total_amount :: number
  total_gst_amount :: number
  total_invoice_amount :: number
  status :: invoice_status
  place_of_supply_type :: supply_type
  notes' :: "string option"

record invoice_item = computed_item +
  invoice_id :: uuid

record expense =
  id :: uuid
  company_id :: uuid
  vendor_name :: "string option"
  vendor_gstin :: "string option"
  expense_date :: string
  expense_description :: string
  expense_account_id :: uuid
  amount_before_gst :: number
  gst_rate_applied_on_purchase :: number
  gst_paid_amount :: number
  total_expense_amount :: number
  place_of_supply_type_for_purchase :: supply_type
  cgst_input_credit :: number
  sgst_input_credit :: number
  igst_input_credit :: number

record database =
  company_profiles :: "company_profile list"
  accounts :: "account list"
  invoices :: "invoice list"
  invoice_items :: "invoice_item list"
  expenses :: "expense list"
  next_uuid :: uuid

text \<open>A column \<open>numeric(precision, scale) NOT NULL\<close> receiving a number of a request. The
  body of the request carries the decimal text of the number, or \<open>null\<close> for NaN and the
  infinities, which the column refuses. The column rounds the decimal to \<open>scale\<close> fraction
  digits, a tie going away from zero, and refuses a value that needs more than
  \<open>precision\<close> digits. The result is the number a later query reads from the column.\<close>

definition numeric :: "nat \<Rightarrow> nat \<Rightarrow> number \<Rightarrow> number option" where
  "numeric precision scale v =
     (case v of
        Finite x \<Rightarrow>
          (let r = round_half_away (shortest_decimal x * 10 ^ scale)
           in if 10 ^ precision \<le> \<bar>r\<bar> then None else Some (fl (of_int r / 10 ^ scale)))
      | _ \<Rightarrow> None)"

text \<open>The texts a \<open>uuid\<close> column takes: thirty-two hexadecimal digits, in groups of four
  with an optional hyphen after each group but the last, optionally in braces. The column
  gives the value back in lower case, hyphenated 8-4-4-4-12.\<close>

definition is_hex :: "char \<Rightarrow> bool" where
  "is_hex c =
     ((CHR ''0'' \<le> c \<and> c \<le> CHR ''9'') \<or> (CHR ''a'' \<le> c \<and> c \<le> CHR ''f'')
      \<or> (CHR ''A'' \<le> c \<and> c \<le> CHR ''F''))"

fun uuid_groups :: "nat \<Rightarrow> string \<Rightarrow> bool" where
  "uuid_groups 0 s = (s = [])"
| "uuid_groups (Suc n) (a # b # c # d # rest) =
     (is_hex a \<and> is_hex b \<and> is_hex c \<and> is_hex d
      \<and> uuid_groups n (if n \<noteq> 0 \<and> take 1 rest = ''-'' then tl rest else rest))"
| "uuid_groups (Suc n) s = False"

definition uuid_text :: "string \<Rightarrow> bool" where
  "uuid_text s =
     (case s of
        [] \<Rightarrow> False
      | c # t \<Rightarrow>
          if c = CHR ''{'' then t \<noteq> [] \<and> last t = CHR ''}'' \<and> uuid_groups 8 (butlast t)
          else uuid_groups 8 s)"

definition lower_hex :: "char \<Rightarrow> char" where
  "lower_hex c =
     (if c = CHR ''A'' then CHR ''a'' else if c = CHR ''B'' then CHR ''b''
      else if c = CHR ''C'' then CHR ''c'' else if c = CHR ''D'' then CHR ''d''
      else if c = CHR ''E'' then CHR ''e'' else if c = CHR ''F'' then CHR ''f'' else c)"

definition uuid_out :: "string \<Rightarrow> string" where
  "uuid_out s =
     (let h = map lower_hex (filter is_hex s)
      in take 8 h @ ''-'' @ take 4 (drop 8 h) @ ''-'' @ take 4 (drop 12 h) @ ''-''
         @ take 4 (drop 16 h) @ ''-'' @ drop 20 h)"

text \<open>The condition of the row-level policies of the migration: the company of the row
  belongs to the signed-in user, \<open>auth.uid()\<close>.\<close>

definition owns :: "database \<Rightarrow> uuid \<Rightarrow> uuid \<Rightarrow> bool" where
  "owns db uid cid =
     list_ex (\<lambda>c. company_profile.id c = cid \<and> user_id c = uid) (company_profiles db)"

text \<open>The filters of the query builder. Dates are \<open>yyyy-MM-dd\<close> texts, which the
  lexicographic order of strings compares chronologically.\<close>

definition eq :: "('r \<Rightarrow> 'v) \<Rightarrow> 'v \<Rightarrow> 'r list \<Rightarrow> 'r list" where
  "eq col v rows = filter (\<lambda>r. col r = v) rows"

definition neq :: "('r \<Rightarrow> 'v) \<Rightarrow> 'v \<Rightarrow> 'r list \<Rightarrow> 'r list" where
  "neq col v rows = filter (\<lambda>r. col r \<noteq> v) rows"

definition gte :: "('r \<Rightarrow> string) \<Rightarrow> string \<Rightarrow> 'r list \<Rightarrow> 'r list" where
  "gte col v rows = filter (\<lambda>r. v \<le> col r) rows"

definition lte :: "('r \<Rightarrow> string) \<Rightarrow> string \<Rightarrow> 'r list \<Rightarrow> 'r list" where
  "lte col v rows = filter (\<lambda>r. col r \<le> v) rows"

definition order_by :: "('r \<Rightarrow> string) \<Rightarrow> 'r list \<Rightarrow> 'r list" where
  "order_by col rows = sort_key col rows"

section \<open>Saving an invoice (\<open>CreateEditInvoice.tsx\<close>)\<close>

record invoice_form =
  customer_name :: string
  customer_gstin :: string
  invoice_number :: string
  invoice_date :: string
  due_date :: string
  place_of_supply_type :: supply_type
  notes' :: string
  items :: "line_item list"

subsection \<open>The schema\<close>

definition is_digit :: "char \<Rightarrow> bool" where
  "is_digit c = (CHR ''0'' \<le> c \<and> c \<le> CHR ''9'')"

definition is_upper :: "char \<Rightarrow> bool" where
  "is_upper c = (CHR ''A'' \<le> c \<and> c \<le> CHR ''Z'')"

text \<open>\<open>/^[0-9]{2}[A-Z]{5}[0-9]{4}[A-Z]{1}[1-9A-Z]{1}Z[0-9A-Z]{1}$/\<close>\<close>

definition gstin_regex :: "string \<Rightarrow> bool" where
  "gstin_regex s =
     (length s = 15
      \<and> list_all is_digit (take 2 s)
      \<and> list_all is_upper (take 5 (drop 2 s))
      \<and> list_all is_digit (take 4 (drop 7 s))
      \<and> is_upper (s ! 11)
      \<and> ((CHR ''1'' \<le> s ! 12 \<and> s ! 12 \<le> CHR ''9'') \<or> is_upper (s ! 12))
      \<and> s ! 13 = CHR ''Z''
      \<and> (is_digit (s ! 14) \<or> is_upper (s ! 14)))"

text \<open>\<open>z.string().min(1, msg)\<close>\<close>

definition string_min1 :: "string \<Rightarrow> string \<Rightarrow> string list" where
  "string_min1 v msg = (if length v < 1 then [msg] else [])"

text \<open>\<open>z.number().min(lo, msg)\<close>: NaN is not a number for the schema.\<close>

definition number_min :: "number \<Rightarrow> number \<Rightarrow> string \<Rightarrow> string list" where
  "number_min v lo msg =
     (if v = NaN then [''Expected number, received nan'']
      else if fge v lo then [] else [msg])"

text \<open>\<open>.max(hi, msg)\<close> on a number that passed the type check.\<close>

definition number_max :: "number \<Rightarrow> number \<Rightarrow> string \<Rightarrow> string list" where
  "number_max v hi msg = (if v = NaN \<or> fge hi v then [] else [msg])"

definition item_errors :: "line_item \<Rightarrow> string list" where
  "item_errors item =
     string_min1 (item_description item) ''Item description is required''
     @ number_min (quantity item) (fl (1 / 100)) ''Quantity must be greater than 0''
     @ number_min (rate item) (Finite 0) ''Rate must be 0 or greater''
     @ number_min (gst_rate_percentage item) (Finite 0) ''GST rate must be 0 or greater''
     @ number_max (gst_rate_percentage item) (Finite 28) ''GST rate cannot exceed 28%''"

text \<open>The issues the schema raises on the values of the form; none means the values parse.\<close>

definition schema_errors :: "invoice_form \<Rightarrow> string list" where
  "schema_errors data =
     string_min1 (invoice_form.customer_name data) ''Customer name is required''
     @ (if gstin_regex (invoice_form.customer_gstin data)
           \<or> length (invoice_form.customer_gstin data) = 0
        then [] else [''Invalid GSTIN format''])
     @ string_min1 (invoice_form.invoice_number data) ''Invoice number is required''
     @ string_min1 (invoice_form.invoice_date data) ''Invoice date is required''
     @ (if invoice_form.place_of_supply_type data \<in> {IntraState, InterState}
        then [] else [''Invalid enum value''])
     @ concat (map item_errors (items data))
     @ (if length (items data) < 1 then [''At least one item is required''] else [])"

subsection \<open>The payloads of \<open>onSubmit\<close>\<close>

text \<open>The ways a submission ends: the schema rejects the values; there is no company
  profile and nothing is done; every request succeeded (\<open>Invoice updated successfully\<close> or
  \<open>Invoice created successfully\<close>); or a request returned an error, which \<open>onSubmit\<close>
  throws and reports as \<open>Failed to save invoice\<close>.\<close>

datatype submit_result = Rejected "string list" | NoCompany | Saved | Failed

text \<open>\<open>data.customer_gstin || null\<close>\<close>

definition or_null :: "string \<Rightarrow> string option" where
  "or_null v = (if v = [] then None else Some v)"

text \<open>\<open>{ invoice_id: id, ...item }\<close>\<close>

definition with_invoice_id :: "uuid \<Rightarrow> computed_item \<Rightarrow> invoice_item" where
  "with_invoice_id i item = computed_item.extend item \<lparr> invoice_id = i \<rparr>"

text \<open>The object passed to \<open>.update({...})\<close>, written over a row.\<close>

definition invoice_update :: "invoice_form \<Rightarrow> invoice_totals \<Rightarrow> invoice \<Rightarrow> invoice" where
  "invoice_update data totals r =
     r \<lparr> invoice.customer_name := invoice_form.customer_name data,
         invoice.customer_gstin := or_null (invoice_form.customer_gstin data),
         invoice.invoice_number := invoice_form.invoice_number data,
         invoice.invoice_date := invoice_form.invoice_date data,
         invoice.due_date := or_null (invoice_form.due_date data),
         invoice.place_of_supply_type := invoice_form.place_of_supply_type data,
         invoice.notes' := or_null (invoice_form.notes' data),
         sub_total_amount := subTotal totals,
         total_gst_amount := totalGst totals,
         total_invoice_amount := invoice_totals.totalAmount totals \<rparr>"

text \<open>The row passed to \<open>.insert([{...}])\<close>, with the \<open>id\<close> the store gives it.\<close>

definition invoice_insert ::
  "uuid \<Rightarrow> company_profile \<Rightarrow> invoice_form \<Rightarrow> invoice_totals \<Rightarrow> invoice" where
  "invoice_insert new_id company data totals =
     \<lparr> invoice.id = new_id,
       invoice.company_id = company_profile.id company,
       invoice.customer_name = invoice_form.customer_name data,
       invoice.customer_gstin = or_null (invoice_form.customer_gstin data),
       invoice.invoice_number = invoice_form.invoice_number data,
       invoice.invoice_date = invoice_form.invoice_date data,
       invoice.due_date = or_null (invoice_form.due_date data),
       sub_total_amount = subTotal totals,
       total_gst_amount = totalGst totals,
       total_invoice_amount = invoice_totals.totalAmount totals,
       status = Draft,
       invoice.place_of_supply_type = invoice_form.place_of_supply_type data,
       invoice.notes' = or_null (invoice_form.notes' data) \<rparr>"

subsection \<open>The requests of \<open>onSubmit\<close> at the store\<close>

text \<open>
  A request returns an error or succeeds. The reasons for which the store refuses a request
  are modelled below as far as they are named above; every other reason (the network, the
  session, a date that is no date, a line that names a product the store does not have) is
  left to the surroundings of the submission, which say for each of its three requests
  whether it gets through. A request that gets through can still be refused for a reason
  modelled here. The signed-in user is the user of the company profile: the company context
  loads the profile by \<open>user_id\<close>.
\<close>

record store_env =
  invoices_request :: bool
  delete_request :: bool
  items_request :: bool

text \<open>The three totals in their \<open>numeric(15,2)\<close> columns.\<close>

definition stored_totals :: "invoice_totals \<Rightarrow> invoice_totals option" where
  "stored_totals t =
     (case numeric 15 2 (subTotal t) of
        None \<Rightarrow> None
      | Some sub \<Rightarrow>
          (case numeric 15 2 (totalGst t) of
             None \<Rightarrow> None
           | Some gst \<Rightarrow>
               (case numeric 15 2 (invoice_totals.totalAmount t) of
                  None \<Rightarrow> None
                | Some amount \<Rightarrow>
                    Some \<lparr> subTotal = sub, totalGst = gst, totalAmount = amount \<rparr>)))"

text \<open>A line in the columns of \<open>invoice_items\<close>: \<open>product_service_id\<close> is a \<open>uuid\<close>,
  which the empty text of a line without a product is not; \<open>gst_rate_percentage\<close> is
  \<open>numeric(5,2)\<close> and the other amounts are \<open>numeric(15,2)\<close>.\<close>

definition stored_item :: "computed_item \<Rightarrow> computed_item option" where
  "stored_item item =
     (if uuid_text (product_service_id item) then
        (case numeric 15 2 (quantity item) of None \<Rightarrow> None | Some q \<Rightarrow>
        (case numeric 15 2 (rate item) of None \<Rightarrow> None | Some r \<Rightarrow>
        (case numeric 15 2 (item_total_amount item) of None \<Rightarrow> None | Some amount \<Rightarrow>
        (case numeric 5 2 (gst_rate_percentage item) of None \<Rightarrow> None | Some pct \<Rightarrow>
        (case numeric 15 2 (cgst_amount item) of None \<Rightarrow> None | Some c \<Rightarrow>
        (case numeric 15 2 (sgst_amount item) of None \<Rightarrow> None | Some s \<Rightarrow>
        (case numeric 15 2 (igst_amount item) of None \<Rightarrow> None | Some i \<Rightarrow>
        (case numeric 15 2 (item_gst_total item) of None \<Rightarrow> None | Some gst \<Rightarrow>
           Some \<lparr> product_service_id = uuid_out (product_service_id item),
                  item_description = item_description item,
                  quantity = q, rate = r, gst_rate_percentage = pct,
                  item_total_amount = amount, cgst_amount = c, sgst_amount = s,
                  igst_amount = i, item_gst_total = gst \<rparr>))))))))
      else None)"

text \<open>The rows the update addresses: \<open>.eq('id', id).eq('company_id', companyProfile.id)\<close>,
  among the rows the policy of the table lets the user update.\<close>

definition invoice_addressed :: "database \<Rightarrow> company_profile \<Rightarrow> uuid \<Rightarrow> invoice \<Rightarrow> bool" where
  "invoice_addressed db company i r =
     (invoice.id r = i \<and> invoice.company_id r = company_profile.id company
      \<and> owns db (user_id company) (invoice.company_id r))"

text \<open>The update of the invoices table. A row it writes must pass the check on
  \<open>place_of_supply_type\<close> and take the totals into its columns.\<close>

definition update_invoice ::
  "store_env \<Rightarrow> company_profile \<Rightarrow> uuid \<Rightarrow> invoice_form \<Rightarrow> invoice_totals \<Rightarrow> database
     \<Rightarrow> database option" where
  "update_invoice env company i data totals db =
     (if invoices_request env then
        if list_ex (invoice_addressed db company i) (invoices db) then
          if invoice_form.place_of_supply_type data = NotApplicable then None
          else
            (case stored_totals totals of
               None \<Rightarrow> None
             | Some t \<Rightarrow>
                 Some (db \<lparr> invoices :=
                         map (\<lambda>r. if invoice_addressed db company i r
                                    then invoice_update data t r else r)
                           (invoices db) \<rparr>))
        else Some db
      else None)"

text \<open>The insert into the invoices table, with \<open>.select().single()\<close>: the new row is
  returned. The policy of the table wants the company to be one of the user.\<close>

definition insert_invoice ::
  "store_env \<Rightarrow> company_profile \<Rightarrow> invoice_form \<Rightarrow> invoice_totals \<Rightarrow> database
     \<Rightarrow> (invoice \<times> database) option" where
  "insert_invoice env company data totals db =
     (if invoices_request env \<and> owns db (user_id company) (company_profile.id company)
         \<and> invoice_form.place_of_supply_type data \<noteq> NotApplicable
      then
        (case stored_totals totals of
           None \<Rightarrow> None
         | Some t \<Rightarrow>
             Some (invoice_insert (next_uuid db) company data t,
                   db \<lparr> invoices := invoices db
                           @ [invoice_insert (next_uuid db) company data t],
                        next_uuid := Suc (next_uuid db) \<rparr>))
      else None)"

text \<open>The policies of \<open>invoice_items\<close>: the line belongs to an invoice of a company of the
  user.\<close>

definition items_policy :: "database \<Rightarrow> company_profile \<Rightarrow> uuid \<Rightarrow> bool" where
  "items_policy db company i =
     list_ex (\<lambda>r. invoice.id r = i \<and> owns db (user_id company) (invoice.company_id r))
       (invoices db)"

text \<open>\<open>.delete().eq('invoice_id', id)\<close>\<close>

definition delete_invoice_items ::
  "store_env \<Rightarrow> company_profile \<Rightarrow> uuid \<Rightarrow> database \<Rightarrow> database option" where
  "delete_invoice_items env company i db =
     (if delete_request env then
        Some (db \<lparr> invoice_items :=
                filter (\<lambda>it. \<not> (invoice_id it = i \<and> items_policy db company (invoice_id it)))
                  (invoice_items db) \<rparr>)
      else None)"

text \<open>The insert of the lines, one statement: a line that the columns or the policy refuse
  makes the store refuse all of them.\<close>

definition insert_invoice_items ::
  "store_env \<Rightarrow> company_profile \<Rightarrow> uuid \<Rightarrow> computed_item list \<Rightarrow> database
     \<Rightarrow> database option" where
  "insert_invoice_items env company i its db =
     (if items_request env \<and> (its = [] \<or> items_policy db company i) then
        (case those (map stored_item its) of
           None \<Rightarrow> None
         | Some rows \<Rightarrow>
             Some (db \<lparr> invoice_items := invoice_items db @ map (with_invoice_id i) rows \<rparr>))
      else None)"

text \<open>A row holds the totals \<open>t\<close>: each of its three amounts is the value its column makes
  of the amount of \<open>t\<close>. A row \<open>r'\<close> is the row \<open>r\<close> rewritten from the form: it is \<open>r\<close>
  with the payload of the update written over it, the totals as the columns take them.\<close>

definition holds_totals :: "invoice_totals \<Rightarrow> invoice \<Rightarrow> bool" where
  "holds_totals t r =
     (numeric 15 2 (subTotal t) = Some (sub_total_amount r)
      \<and> numeric 15 2 (totalGst t) = Some (total_gst_amount r)
      \<and> numeric 15 2 (invoice_totals.totalAmount t) = Some (total_invoice_amount r))"

definition rewritten :: "invoice_form \<Rightarrow> invoice_totals \<Rightarrow> invoice \<Rightarrow> invoice \<Rightarrow> bool" where
  "rewritten data t r r' =
     (case stored_totals t of None \<Rightarrow> False | Some t' \<Rightarrow> r' = invoice_update data t' r)"

subsection \<open>\<open>onSubmit\<close>\<close>

definition onSubmit ::
  "store_env \<Rightarrow> company_profile option \<Rightarrow> uuid option \<Rightarrow> invoice_form \<Rightarrow> database
     \<Rightarrow> submit_result \<times> database" where
  "onSubmit env companyProfile ident data db =
     (case companyProfile of
        None \<Rightarrow> (NoCompany, db)
      | Some company \<Rightarrow>
          let its = map (compute_item (invoice_form.place_of_supply_type data)) (items data);
              totals = aggregate its
          in case ident of
               Some i \<Rightarrow>
                 (case update_invoice env company i data totals db of
                    None \<Rightarrow> (Failed, db)
                  | Some db1 \<Rightarrow>
                      (case delete_invoice_items env company i db1 of
                         None \<Rightarrow> (Failed, db1)
                       | Some db2 \<Rightarrow>
                           (case insert_invoice_items env company i its db2 of
                              None \<Rightarrow> (Failed, db2)
                            | Some db3 \<Rightarrow> (Saved, db3))))
             | None \<Rightarrow>
                 (case insert_invoice env company data totals db of
                    None \<Rightarrow> (Failed, db)
                  | Some (row, db1) \<Rightarrow>
                      (case insert_invoice_items env company (invoice.id row) its db1 of
                         None \<Rightarrow> (Failed, db1)
                       | Some db2 \<Rightarrow> (Saved, db2))))"

text \<open>\<open>handleSubmit(onSubmit)\<close>: the resolver runs the schema on the values of the form
  and \<open>onSubmit\<close> is called only when it raises no issue.\<close>

definition handleSubmit ::
  "store_env \<Rightarrow> company_profile option \<Rightarrow> uuid option \<Rightarrow> invoice_form \<Rightarrow> database
     \<Rightarrow> submit_result \<times> database" where
  "handleSubmit env companyProfile ident data db =
     (if schema_errors data = [] then onSubmit env companyProfile ident data db
      else (Rejected (schema_errors data), db))"

section \<open>Profit and loss (\<open>ProfitLossReport.tsx\<close>)\<close>

record account_summary =
  account :: account
  total :: number

text \<open>The state of the component that \<open>fetchReportData\<close> sets.\<close>

record report_data =
  totalSales :: number
  expensesByAccount :: "account_summary list"

definition fetchReportData ::
  "company_profile option \<Rightarrow> string \<Rightarrow> string \<Rightarrow> database \<Rightarrow> report_data \<Rightarrow> report_data" where
  "fetchReportData companyProfile startDate endDate db st =
     (case companyProfile of
        None \<Rightarrow> st
      | Some company \<Rightarrow>
          let salesData =
                lte invoice.invoice_date endDate
                  (gte invoice.invoice_date startDate
                    (neq status Draft
                      (eq invoice.company_id (company_profile.id company) (invoices db))));
              sales = or_zero
                (foldl (\<lambda>sum invoice. fadd sum (or_zero (sub_total_amount invoice)))
                   (Finite 0) salesData);
              accts =
                order_by account.account_name
                  (eq account.account_type Expense
                    (eq account.company_id (company_profile.id company) (accounts db)));
              expenseSummaries =
                map (\<lambda>acct.
                       let exps =
                             lte expense_date endDate
                               (gte expense_date startDate
                                 (eq expense_account_id (account.id acct)
                                   (eq expense.company_id (company_profile.id company)
                                      (expenses db))));
                           tot = or_zero
                             (foldl (\<lambda>sum expense. fadd sum (or_zero (amount_before_gst expense)))
                                (Finite 0) exps)
                       in \<lparr> account = acct, total = tot \<rparr>)
                    accts
          in \<lparr> totalSales = sales, expensesByAccount = expenseSummaries \<rparr>)"

definition totalExpenses :: "report_data \<Rightarrow> number" where
  "totalExpenses st = foldl (\<lambda>sum item. fadd sum (total item)) (Finite 0) (expensesByAccount st)"

definition netProfit :: "report_data \<Rightarrow> number" where
  "netProfit st = fsub (totalSales st) (totalExpenses st)"

text \<open>What the page shows for the net figure: the label \<open>Net Profit\<close> or \<open>Net Loss\<close> and
  the magnitude.\<close>

definition net_profit_shown :: "report_data \<Rightarrow> string \<times> number" where
  "net_profit_shown st =
     (if fge (netProfit st) (Finite 0) then ''Profit'' else ''Loss'', fabs (netProfit st))"

section \<open>GST summary (\<open>GSTReport.tsx\<close>)\<close>

record sales_gst =
  taxableValue :: number
  cgst :: number
  sgst :: number
  igst :: number

record purchases_gst =
  taxableValue :: number
  cgstInput :: number
  sgstInput :: number
  igstInput :: number

record gst_summary =
  sales :: sales_gst
  purchases :: purchases_gst

record net_gst =
  cgst :: number
  sgst :: number
  igst :: number

definition fetchGSTData ::
  "company_profile option \<Rightarrow> string \<Rightarrow> string \<Rightarrow> database \<Rightarrow> gst_summary \<Rightarrow> gst_summary" where
  "fetchGSTData companyProfile startDate endDate db st =
     (case companyProfile of
        None \<Rightarrow> st
      | Some company \<Rightarrow>
          let invs =
                lte invoice.invoice_date endDate
                  (gte invoice.invoice_date startDate
                    (neq status Draft
                      (eq invoice.company_id (company_profile.id company) (invoices db))));
              salesSummary =
                foldl (\<lambda>acc invoice.
                         foldl (\<lambda>acc item.
                                  acc \<lparr> sales_gst.cgst :=
                                          fadd (sales_gst.cgst acc) (or_zero (cgst_amount item)),
                                        sales_gst.sgst :=
                                          fadd (sales_gst.sgst acc) (or_zero (sgst_amount item)),
                                        sales_gst.igst :=
                                          fadd (sales_gst.igst acc) (or_zero (igst_amount item)) \<rparr>)
                           (acc \<lparr> sales_gst.taxableValue :=
                                    fadd (sales_gst.taxableValue acc)
                                      (or_zero (sub_total_amount invoice)) \<rparr>)
                           (eq invoice_id (invoice.id invoice) (invoice_items db)))
                  \<lparr> sales_gst.taxableValue = Finite 0, cgst = Finite 0, sgst = Finite 0,
                    igst = Finite 0 \<rparr>
                  invs;
              exps =
                lte expense_date endDate
                  (gte expense_date startDate
                    (eq expense.company_id (company_profile.id company) (expenses db)));
              purchasesSummary =
                foldl (\<lambda>acc expense.
                         acc \<lparr> purchases_gst.taxableValue :=
                                 fadd (purchases_gst.taxableValue acc)
                                   (or_zero (amount_before_gst expense)),
                               cgstInput := fadd (cgstInput acc) (or_zero (cgst_input_credit expense)),
                               sgstInput := fadd (sgstInput acc) (or_zero (sgst_input_credit expense)),
                               igstInput :=
                                 fadd (igstInput acc) (or_zero (igst_input_credit expense)) \<rparr>)
                  \<lparr> purchases_gst.taxableValue = Finite 0, cgstInput = Finite 0,
                    sgstInput = Finite 0, igstInput = Finite 0 \<rparr>
                  exps
          in \<lparr> sales = salesSummary, purchases = purchasesSummary \<rparr>)"

definition netGSTPayable :: "gst_summary \<Rightarrow> net_gst" where
  "netGSTPayable summary =
     \<lparr> net_gst.cgst = fsub (sales_gst.cgst (sales summary)) (cgstInput (purchases summary)),
       net_gst.sgst = fsub (sales_gst.sgst (sales summary)) (sgstInput (purchases summary)),
       net_gst.igst = fsub (sales_gst.igst (sales summary)) (igstInput (purchases summary)) \<rparr>"

text \<open>What the page prints for one head of the net GST, after the rupee sign: the text of
  \<open>Math.abs(v).toLocaleString('en-IN', { minimumFractionDigits: 2 })\<close> and the label
  \<open>v >= 0 ? ' (Payable)' : ' (Credit)'\<close>.\<close>

definition net_gst_shown :: "number \<Rightarrow> string" where
  "net_gst_shown v =
     magnitude_text v @ (if fge v (Finite 0) then '' (Payable)'' else '' (Credit)'')"

section \<open>Company creation and the chart of accounts\<close>

text \<open>The stored procedure \<open>create_default_accounts\<close> of the migration: one insert of six
  rows.\<close>

definition create_default_accounts :: "uuid \<Rightarrow> database \<Rightarrow> database" where
  "create_default_accounts cid db =
     db \<lparr> accounts := accounts db @
            map (\<lambda>(k, name, ty).
                   \<lparr> account.id = next_uuid db + k, account.company_id = cid,
                     account.account_name = name, account.account_type = ty,
                     is_default = True \<rparr>)
              [(0, ''Sales'', Income),
               (1, ''Purchases/Direct Expenses'', Expense),
               (2, ''Bank Account'', Asset),
               (3, ''Cash in Hand'', Asset),
               (4, ''GST Payable'', Liability),
               (5, ''GST Input Credit'', Asset)],
          next_uuid := next_uuid db + 6 \<rparr>"

record company_form =
  company_name :: string
  company_address :: string
  gstin :: string
  logo_url :: string
  fiscal_year_start_month :: nat

text \<open>\<open>createCompanyProfile\<close> of the company context: without a signed-in user nothing is
  written; otherwise the profile is inserted and the stored procedure is called for it.\<close>

definition createCompanyProfile ::
  "uuid option \<Rightarrow> company_form \<Rightarrow> database \<Rightarrow> company_profile option \<times> database" where
  "createCompanyProfile user data db =
     (case user of
        None \<Rightarrow> (None, db)
      | Some u \<Rightarrow>
          let createdProfile =
                \<lparr> company_profile.id = next_uuid db, user_id = u,
                  company_profile.company_name = company_form.company_name data,
                  company_profile.company_address = Some (company_form.company_address data),
                  company_profile.gstin = Some (company_form.gstin data),
                  company_profile.logo_url = Some (company_form.logo_url data),
                  company_profile.fiscal_year_start_month =
                    (if company_form.fiscal_year_start_month data = 0 then 4
                     else company_form.fiscal_year_start_month data) \<rparr>;
              db1 = db \<lparr> company_profiles := company_profiles db @ [createdProfile],
                         next_uuid := Suc (next_uuid db) \<rparr>
          in (Some createdProfile,
              create_default_accounts (company_profile.id createdProfile) db1))"

subsection \<open>The page \<open>ChartOfAccounts\<close>\<close>

record account_form =
  account_name :: string
  account_type :: account_type

record accounts_page =
  accounts :: "account list"
  showModal :: bool
  editingAccount :: "account option"

definition account_type_text :: "account_type \<Rightarrow> string" where
  "account_type_text ty =
     (case ty of Income \<Rightarrow> ''Income'' | Expense \<Rightarrow> ''Expense''
               | Asset \<Rightarrow> ''Asset'' | Liability \<Rightarrow> ''Liability'')"

definition fetchAccounts ::
  "company_profile option \<Rightarrow> accounts_page \<times> database \<Rightarrow> accounts_page \<times> database" where
  "fetchAccounts companyProfile st =
     (case companyProfile of
        None \<Rightarrow> st
      | Some company \<Rightarrow>
          (case st of (page, db) \<Rightarrow>
             (page \<lparr> accounts_page.accounts :=
                       order_by (\<lambda>a. account_type_text (account.account_type a))
                         (order_by account.account_name
                           (eq account.company_id (company_profile.id company)
                              (database.accounts db))) \<rparr>,
              db)))"

definition openModal :: "account option \<Rightarrow> accounts_page \<Rightarrow> accounts_page" where
  "openModal acct page = page \<lparr> editingAccount := acct, showModal := True \<rparr>"

definition closeModal :: "accounts_page \<Rightarrow> accounts_page" where
  "closeModal page = page \<lparr> editingAccount := None, showModal := False \<rparr>"

text \<open>\<open>onSubmit\<close> of the page: an update of the account being edited, or an insert of a
  new account that is not a default one.\<close>

definition account_onSubmit ::
  "company_profile option \<Rightarrow> account_form \<Rightarrow> accounts_page \<times> database
     \<Rightarrow> accounts_page \<times> database" where
  "account_onSubmit companyProfile data st =
     (case companyProfile of
        None \<Rightarrow> st
      | Some company \<Rightarrow>
          (case st of (page, db) \<Rightarrow>
             let db' =
                   (case editingAccount page of
                      Some editing \<Rightarrow>
                        db \<lparr> database.accounts :=
                               map (\<lambda>r. if account.id r = account.id editing
                                             \<and> account.company_id r = company_profile.id company
                                          then r \<lparr> account.account_name :=
                                                     account_form.account_name data,
                                                   account.account_type :=
                                                     account_form.account_type data \<rparr>
                                          else r)
                                 (database.accounts db) \<rparr>
                    | None \<Rightarrow>
                        db \<lparr> database.accounts := database.accounts db @
                               [\<lparr> account.id = next_uuid db,
                                  account.company_id = company_profile.id company,
                                  account.account_name = account_form.account_name data,
                                  account.account_type = account_form.account_type data,
                                  is_default = False \<rparr>],
                             next_uuid := Suc (next_uuid db) \<rparr>)
             in fetchAccounts companyProfile (closeModal page, db')))"

text \<open>\<open>deleteAccount\<close>: nothing happens unless the user confirms; the delete is filtered on
  \<open>is_default = false\<close>; the store refuses it when an expense refers to a row it would
  remove, and the page then only reports that.\<close>

definition deleteAccount ::
  "company_profile option \<Rightarrow> bool \<Rightarrow> uuid \<Rightarrow> accounts_page \<times> database
     \<Rightarrow> accounts_page \<times> database" where
  "deleteAccount companyProfile confirmed ident st =
     (case companyProfile of
        None \<Rightarrow> st
      | Some company \<Rightarrow>
          (case st of (page, db) \<Rightarrow>
             if \<not> confirmed then st
             else
               let doomed =
                     eq is_default False
                       (eq account.company_id (company_profile.id company)
                          (eq account.id ident (database.accounts db)))
               in if list_ex (\<lambda>e. expense_account_id e \<in> account.id ` set doomed) (expenses db)
                  then st
                  else fetchAccounts companyProfile
                         (page,
                          db \<lparr> database.accounts :=
                                 filter (\<lambda>r. r \<notin> set doomed) (database.accounts db) \<rparr>)))"

text \<open>What the rendered page lets the user do. Without a company profile the page shows
  no control. The edit and delete buttons of a row are disabled for a default account; the
  form exists only while the modal is shown, and is submitted through the schema of the
  page (the account name must not be empty).\<close>

datatype page_event =
    Load
  | ClickAdd
  | ClickEdit account
  | ClickDelete account bool
  | ClickClose
  | SubmitForm account_form

definition handle ::
  "company_profile option \<Rightarrow> page_event \<Rightarrow> accounts_page \<times> database
     \<Rightarrow> accounts_page \<times> database" where
  "handle companyProfile ev st =
     (case st of (page, db) \<Rightarrow>
        if companyProfile = None then st
        else
          (case ev of
             Load \<Rightarrow> fetchAccounts companyProfile st
           | ClickAdd \<Rightarrow> (openModal None page, db)
           | ClickEdit a \<Rightarrow>
               if a \<in> set (accounts_page.accounts page) \<and> \<not> is_default a
               then (openModal (Some a) page, db) else st
           | ClickDelete a confirmed \<Rightarrow>
               if a \<in> set (accounts_page.accounts page) \<and> \<not> is_default a
               then deleteAccount companyProfile confirmed (account.id a) st else st
           | ClickClose \<Rightarrow> if showModal page then (closeModal page, db) else st
           | SubmitForm data \<Rightarrow>
               if showModal page \<and> 1 \<le> length (account_form.account_name data)
               then account_onSubmit companyProfile data st else st))"

fun run ::
  "company_profile option \<Rightarrow> page_event list \<Rightarrow> accounts_page \<times> database
     \<Rightarrow> accounts_page \<times> database" where
  "run companyProfile [] st = st"
| "run companyProfile (ev # evs) st = run companyProfile evs (handle companyProfile ev st)"

text \<open>The state of the page when it is mounted.\<close>

definition initial_page :: accounts_page where
  "initial_page = \<lparr> accounts_page.accounts = [], showModal = False, editingAccount = None \<rparr>"

text \<open>Every \<open>id\<close> of the accounts table was drawn from the counter, once.\<close>

definition ids_fresh :: "database \<Rightarrow> bool" where
  "ids_fresh db =
     (distinct (map account.id (database.accounts db))
      \<and> list_all (\<lambda>a. account.id a < next_uuid db) (database.accounts db))"

subsection \<open>The accounts table behind the page\<close>

text \<open>
  The page sends its requests with the key and the session of the signed-in user, who can
  send the same requests without the page. What the store does with a request on the
  accounts table is decided by the policies of the migration. The policy for \<open>UPDATE\<close>,
  \<open>Users can update accounts for their companies\<close>, lets the user write every row of a
  company of theirs; the policy for \<open>DELETE\<close>,
  \<open>Users can delete non-default accounts for their companies\<close>, has the further condition
  \<open>is_default = false\<close>.
\<close>

definition accounts_update_policy :: "database \<Rightarrow> uuid \<Rightarrow> account \<Rightarrow> bool" where
  "accounts_update_policy db uid r = owns db uid (account.company_id r)"

definition accounts_delete_policy :: "database \<Rightarrow> uuid \<Rightarrow> account \<Rightarrow> bool" where
  "accounts_delete_policy db uid r = (is_default r = False \<and> owns db uid (account.company_id r))"

text \<open>\<open>supabase.from('accounts').update({ account_name, account_type }).eq('id', ident)\<close>
  and \<open>supabase.from('accounts').delete().eq('id', ident)\<close>, sent by the user \<open>uid\<close>. A
  row that the policy hides from the request is left as it is; the store refuses a delete
  that would remove an account an expense refers to.\<close>

definition update_account :: "uuid \<Rightarrow> uuid \<Rightarrow> account_form \<Rightarrow> database \<Rightarrow> database" where
  "update_account uid ident data db =
     db \<lparr> database.accounts :=
            map (\<lambda>r. if account.id r = ident \<and> accounts_update_policy db uid r
                       then r \<lparr> account.account_name := account_form.account_name data,
                                account.account_type := account_form.account_type data \<rparr>
                       else r)
              (database.accounts db) \<rparr>"

definition delete_account :: "uuid \<Rightarrow> uuid \<Rightarrow> database \<Rightarrow> database" where
  "delete_account uid ident db =
     (let doomed = filter (\<lambda>r. account.id r = ident \<and> accounts_delete_policy db uid r)
                     (database.accounts db)
      in if list_ex (\<lambda>e. expense_account_id e \<in> account.id ` set doomed) (expenses db)
         then db
         else db \<lparr> database.accounts :=
                     filter (\<lambda>r. r \<notin> set doomed) (database.accounts db) \<rparr>)"

section \<open>The invariant of the chart-of-accounts page\<close>

text \<open>The six rows of the stored procedure, from the first \<open>id\<close> it draws. An account of the
  page is \<open>guarded\<close> when, unless it is itself a default account, no default account of the
  store has its \<open>id\<close>. The invariant of the page: the ids of the store are fresh, every
  account the page lists is guarded, and the account being edited is guarded and not a
  default account.\<close>

definition six_defaults :: "uuid \<Rightarrow> uuid \<Rightarrow> account list" where
  "six_defaults first cid =
     [\<lparr> account.id = first, account.company_id = cid, account.account_name = ''Sales'',
        account.account_type = Income, is_default = True \<rparr>,
      \<lparr> account.id = first + 1, account.company_id = cid,
        account.account_name = ''Purchases/Direct Expenses'',
        account.account_type = Expense, is_default = True \<rparr>,
      \<lparr> account.id = first + 2, account.company_id = cid,
        account.account_name = ''Bank Account'', account.account_type = Asset,
        is_default = True \<rparr>,
      \<lparr> account.id = first + 3, account.company_id = cid,
        account.account_name = ''Cash in Hand'', account.account_type = Asset,
        is_default = True \<rparr>,
      \<lparr> account.id = first + 4, account.company_id = cid,
        account.account_name = ''GST Payable'', account.account_type = Liability,
        is_default = True \<rparr>,
      \<lparr> account.id = first + 5, account.company_id = cid,
        account.account_name = ''GST Input Credit'', account.account_type = Asset,
        is_default = True \<rparr>]"

definition guarded :: "database \<Rightarrow> account \<Rightarrow> bool" where
  "guarded db a =
     (\<not> is_default a \<longrightarrow>
        list_all (\<lambda>d. account.id d = account.id a \<longrightarrow> \<not> is_default d) (database.accounts db))"

definition page_inv :: "accounts_page \<times> database \<Rightarrow> bool" where
  "page_inv st =
     (case st of (page, db) \<Rightarrow>
        ids_fresh db
        \<and> list_all (guarded db) (accounts_page.accounts page)
        \<and> (case editingAccount page of
              None \<Rightarrow> True
            | Some e \<Rightarrow> \<not> is_default e \<and> guarded db e))"

definition defaults :: "database \<Rightarrow> account list" where
  "defaults db = filter is_default (database.accounts db)"

section \<open>Amounts that add without rounding\<close>

text \<open>A whole, non-negative amount; the rational a finite number denotes; and a list of
  whole amounts whose sum does not exceed \<open>2^53\<close>, so that no partial sum of it, in any
  order, is rounded.\<close>

definition whole_amount :: "number \<Rightarrow> bool" where
  "whole_amount v = (case v of Finite x \<Rightarrow> 0 \<le> x \<and> of_int \<lfloor>x\<rfloor> = x | _ \<Rightarrow> False)"

definition amount_value :: "number \<Rightarrow> rat" where
  "amount_value v = (case v of Finite x \<Rightarrow> x | _ \<Rightarrow> 0)"

definition exactly_summable :: "number list \<Rightarrow> bool" where
  "exactly_summable vs =
     (list_all whole_amount vs \<and> sum_list (map amount_value vs) \<le> 2 ^ 53)"

text \<open>A line item of quantity 1 without GST, at the rate the user typed as a decimal: the
  form holds the nearest double.\<close>

definition item_at_rate :: "rat \<Rightarrow> line_item" where
  "item_at_rate r =
     \<lparr> product_service_id = [], item_description = ''Item'', quantity = Finite 1,
       rate = fl r, gst_rate_percentage = Finite 0 \<rparr>"

section \<open>Example data\<close>

definition example_company :: company_profile where
  "example_company =
     \<lparr> company_profile.id = 1, user_id = 0, company_profile.company_name = ''Acme Traders'',
       company_profile.company_address = None, company_profile.gstin = None,
       company_profile.logo_url = None, company_profile.fiscal_year_start_month = 4 \<rparr>"

definition example_form :: invoice_form where
  "example_form =
     \<lparr> invoice_form.customer_name = ''Ravi Stores'', invoice_form.customer_gstin = [],
       invoice_form.invoice_number = ''INV-7'', invoice_form.invoice_date = ''2025-06-15'',
       invoice_form.due_date = [], invoice_form.place_of_supply_type = IntraState,
       invoice_form.notes' = [],
       items = [\<lparr> product_service_id = ''0b5c2f0e-7a41-4c6d-9e1b-3d2f8a6c4e10'',
                  item_description = ''Widget'',
                  quantity = Finite 2, rate = Finite 100, gst_rate_percentage = Finite 18 \<rparr>] \<rparr>"

text \<open>The lines the store holds for the example invoice before it is edited: five widgets.\<close>

definition example_old_items :: "invoice_item list" where
  "example_old_items =
     [with_invoice_id 7
        \<lparr> product_service_id = ''0b5c2f0e-7a41-4c6d-9e1b-3d2f8a6c4e10'',
          item_description = ''Widget'', quantity = Finite 5, rate = Finite 100,
          gst_rate_percentage = Finite 18, item_total_amount = Finite 500,
          cgst_amount = Finite 45, sgst_amount = Finite 45, igst_amount = Finite 0,
          item_gst_total = Finite 90 \<rparr>]"

text \<open>The surroundings in which every request gets through.\<close>

definition all_through :: store_env where
  "all_through = \<lparr> invoices_request = True, delete_request = True, items_request = True \<rparr>"

text \<open>The line that \<open>addItem\<close> and the default values of the form start from, filled in by
  hand without choosing a product: \<open>product_service_id\<close> stays the empty text.\<close>

definition typed_form :: invoice_form where
  "typed_form =
     example_form \<lparr> items :=
       [\<lparr> product_service_id = [], item_description = ''Widget'',
          quantity = Finite 2, rate = Finite 100, gst_rate_percentage = Finite 18 \<rparr>] \<rparr>"

text \<open>Three quarters of a unit at 9.99 and 5 percent.\<close>

definition cents_form :: invoice_form where
  "cents_form =
     example_form \<lparr> items :=
       [\<lparr> product_service_id = ''0b5c2f0e-7a41-4c6d-9e1b-3d2f8a6c4e10'',
          item_description = ''Ribbon'', quantity = fl (3 / 4), rate = fl (999 / 100),
          gst_rate_percentage = Finite 5 \<rparr>] \<rparr>"

definition example_invoice :: invoice where
  "example_invoice =
     \<lparr> invoice.id = 7, invoice.company_id = 1, invoice.customer_name = ''Ravi Stores'',
       invoice.customer_gstin = None, invoice.invoice_number = ''INV-7'',
       invoice.invoice_date = ''2025-06-01'', invoice.due_date = None,
       sub_total_amount = Finite 500, total_gst_amount = Finite 90,
       total_invoice_amount = Finite 590, status = Sent,
       invoice.place_of_supply_type = IntraState, invoice.notes' = None \<rparr>"

definition example_db :: database where
  "example_db =
     \<lparr> company_profiles = [example_company], database.accounts = [],
       invoices = [example_invoice], invoice_items = example_old_items, expenses = [],
       next_uuid = 8 \<rparr>"

definition pl_db :: database where
  "pl_db =
     \<lparr> company_profiles = [example_company],
       database.accounts =
         [\<lparr> account.id = 2, account.company_id = 1, account.account_name = ''Rent'',
            account.account_type = Expense, is_default = False \<rparr>],
       invoices =
         [example_invoice \<lparr> invoice.invoice_date := ''2025-06-10'' \<rparr>,
          example_invoice \<lparr> invoice.id := 8, invoice.invoice_date := ''2025-06-12'',
            sub_total_amount := Finite 9999, total_gst_amount := Finite 0,
            total_invoice_amount := Finite 9999, status := Draft \<rparr>],
       invoice_items = [],
       expenses =
         [\<lparr> expense.id = 3, expense.company_id = 1, vendor_name = None, vendor_gstin = None,
            expense_date = ''2025-06-05'', expense_description = ''Office rent'',
            expense_account_id = 2, amount_before_gst = Finite 800,
            gst_rate_applied_on_purchase = Finite 0, gst_paid_amount = Finite 0,
            total_expense_amount = Finite 800,
            place_of_supply_type_for_purchase = NotApplicable,
            cgst_input_credit = Finite 0, sgst_input_credit = Finite 0,
            igst_input_credit = Finite 0 \<rparr>],
       next_uuid = 9 \<rparr>"

definition empty_report :: report_data where
  "empty_report = \<lparr> totalSales = Finite 0, expensesByAccount = [] \<rparr>"

definition gst_db :: database where
  "gst_db =
     \<lparr> company_profiles = [example_company],
       database.accounts =
         [\<lparr> account.id = 2, account.company_id = 1, account.account_name = ''Purchases'',
            account.account_type = Expense, is_default = False \<rparr>],
       invoices =
         [example_invoice \<lparr> invoice.invoice_date := ''2025-06-10'',
            sub_total_amount := Finite 200, total_gst_amount := Finite 36,
            total_invoice_amount := Finite 236 \<rparr>,
          example_invoice \<lparr> invoice.id := 8, invoice.invoice_date := ''2025-06-12'',
            sub_total_amount := Finite 200, total_gst_amount := Finite 36,
            total_invoice_amount := Finite 236, status := Draft \<rparr>],
       invoice_items =
         [with_invoice_id 7 (compute_item IntraState
            \<lparr> product_service_id = [], item_description = ''Widget'', quantity = Finite 2,
              rate = Finite 100, gst_rate_percentage = Finite 18 \<rparr>),
          with_invoice_id 8 (compute_item IntraState
            \<lparr> product_service_id = [], item_description = ''Widget'', quantity = Finite 2,
              rate = Finite 100, gst_rate_percentage = Finite 18 \<rparr>)],
       expenses =
         [\<lparr> expense.id = 3, expense.company_id = 1, vendor_name = None, vendor_gstin = None,
            expense_date = ''2025-06-05'', expense_description = ''Stock'',
            expense_account_id = 2, amount_before_gst = Finite 400,
            gst_rate_applied_on_purchase = Finite 10, gst_paid_amount = Finite 40,
            total_expense_amount = Finite 440,
            place_of_supply_type_for_purchase = IntraState,
            cgst_input_credit = Finite 20, sgst_input_credit = Finite 20,
            igst_input_credit = Finite 0 \<rparr>],
       next_uuid = 9 \<rparr>"

definition empty_summary :: gst_summary where
  "empty_summary =
     \<lparr> sales = \<lparr> sales_gst.taxableValue = Finite 0, cgst = Finite 0, sgst = Finite 0,
                   igst = Finite 0 \<rparr>,
       purchases = \<lparr> purchases_gst.taxableValue = Finite 0, cgstInput = Finite 0,
                       sgstInput = Finite 0, igstInput = Finite 0 \<rparr> \<rparr>"

definition empty_db :: database where
  "empty_db =
     \<lparr> company_profiles = [], database.accounts = [], invoices = [], invoice_items = [],
       expenses = [], next_uuid = 0 \<rparr>"

definition example_company_form :: company_form where
  "example_company_form =
     \<lparr> company_form.company_name = ''Acme Traders'', company_form.company_address = [],
       company_form.gstin = [], company_form.logo_url = [],
       company_form.fiscal_year_start_month = 4 \<rparr>"

definition seeded_db :: database where
  "seeded_db = snd (createCompanyProfile (Some 0) example_company_form empty_db)"

definition seeded_company :: company_profile where
  "seeded_company = the (fst (createCompanyProfile (Some 0) example_company_form empty_db))"

definition example_events :: "page_event list" where
  "example_events =
     [Load,
      ClickEdit (hd (six_defaults 1 0)),
      SubmitForm \<lparr> account_form.account_name = ''Takings'', account_form.account_type = Income \<rparr>,
      ClickDelete (hd (six_defaults 1 0)) True,
      ClickAdd,
      SubmitForm \<lparr> account_form.account_name = ''Rent'', account_form.account_type = Expense \<rparr>]"

section \<open>Evaluating the rounding\<close>

lemma fl_200: "fl 200 = Finite 200"
  by code_simp

lemma fl_3600: "fl 3600 = Finite 3600"
  by code_simp

lemma fl_36: "fl 36 = Finite 36"
  by code_simp

lemma fl_18: "fl 18 = Finite 18"
  by code_simp

lemma fl_236: "fl 236 = Finite 236"
  by code_simp

lemma fl_1000: "fl 1000 = Finite 1000"
  by code_simp

lemma fadd_zero_right: "is_double v \<Longrightarrow> fadd v (Finite 0) = v"
  by (cases v) (simp_all add: fadd_def is_double_def)

section \<open>Facts about the rounding\<close>

lemma pow2_pos: "0 < pow2 e"
  by (simp add: pow2_def zero_less_power_int)

lemma pow2_add: "pow2 (a + b) = pow2 a * pow2 b"
  by (simp add: pow2_def power_int_add)

lemma pow2_mono: "a \<le> b \<Longrightarrow> pow2 a \<le> pow2 b"
  by (simp add: pow2_def power_int_increasing)

lemma pow2_strict_mono: "a < b \<Longrightarrow> pow2 a < pow2 b"
  by (simp add: pow2_def power_int_strict_increasing)

lemma pow2_less_iff: "pow2 a < pow2 b \<longleftrightarrow> a < b"
  using pow2_mono [of b a] pow2_strict_mono [of a b] by (auto simp: not_less [symmetric])

lemma pow2_nat: "pow2 (int k) = 2 ^ k"
  by (simp add: pow2_def)

lemma pow2_of_int: "0 \<le> k \<Longrightarrow> pow2 k = of_int (2 ^ nat k)"
  by (simp add: pow2_def power_int_def)

lemma pow2_0: "pow2 0 = 1"
  by (simp add: pow2_def)

lemma pow2_Suc: "pow2 (e + 1) = 2 * pow2 e"
  by (simp add: pow2_def power_int_add_1')

lemma bitlen_bounds:
  "0 < n \<Longrightarrow> 1 \<le> bitlen n \<and> 2 ^ nat (bitlen n - 1) \<le> n \<and> n < 2 ^ nat (bitlen n)"
proof (induction n rule: bitlen.induct)
  case (1 n)
  show ?case
  proof (cases "n div 2 = 0")
    case True
    with "1.prems" have n1: "n = 1" by presburger
    have "bitlen 1 = 1" by (simp add: bitlen.simps)
    with n1 show ?thesis by simp
  next
    case False
    with "1.prems" have pos: "0 < n div 2" by presburger
    from "1.IH" [OF _ pos] "1.prems"
    have ih: "1 \<le> bitlen (n div 2)" "2 ^ nat (bitlen (n div 2) - 1) \<le> n div 2"
      "n div 2 < 2 ^ nat (bitlen (n div 2))" by auto
    have bl: "bitlen n = 1 + bitlen (n div 2)"
      using "1.prems" by (subst bitlen.simps) simp
    have e1: "nat (bitlen n - 1) = Suc (nat (bitlen (n div 2) - 1))"
      using bl ih(1) by simp
    have e2: "nat (bitlen n) = Suc (nat (bitlen (n div 2)))"
      using bl ih(1) by simp
    have "2 * 2 ^ nat (bitlen (n div 2) - 1) \<le> n"
      using ih(2) by presburger
    moreover have "n < 2 * 2 ^ nat (bitlen (n div 2))"
      using ih(3) by presburger
    ultimately show ?thesis using bl ih(1) e1 e2 by simp
  qed
qed


lemma floor_log2_bounds:
  assumes "0 < x"
  shows "pow2 (floor_log2 x) \<le> x \<and> x < pow2 (floor_log2 x + 1)"
proof -
  obtain a b where q: "quotient_of x = (a, b)" by (cases "quotient_of x")
  have bpos: "0 < b" using q by (rule quotient_of_denom_pos)
  have x: "x = of_int a / of_int b" using q by (rule quotient_of_div)
  have apos: "0 < a"
  proof (rule ccontr)
    assume "\<not> 0 < a"
    then have "of_int a / (of_int b :: rat) \<le> 0"
      using bpos by (simp add: divide_le_0_iff)
    with x assms show False by simp
  qed
  define la where "la = bitlen a"
  define lb where "lb = bitlen b"
  from bitlen_bounds [OF apos] have a: "1 \<le> la" "2 ^ nat (la - 1) \<le> a" "a < 2 ^ nat la"
    by (simp_all add: la_def)
  from bitlen_bounds [OF bpos] have b: "1 \<le> lb" "2 ^ nat (lb - 1) \<le> b" "b < 2 ^ nat lb"
    by (simp_all add: lb_def)
  have a1: "pow2 (la - 1) \<le> of_int a"
  proof -
    have "(of_int (2 ^ nat (la - 1)) :: rat) \<le> of_int a" using a(2) by (simp only: of_int_le_iff)
    then show ?thesis using a(1) by (simp add: pow2_of_int)
  qed
  have a2: "of_int a < pow2 la"
  proof -
    have "(of_int a :: rat) < of_int (2 ^ nat la)" using a(3) by (simp only: of_int_less_iff)
    then show ?thesis using a(1) by (simp add: pow2_of_int)
  qed
  have b1: "pow2 (lb - 1) \<le> of_int b"
  proof -
    have "(of_int (2 ^ nat (lb - 1)) :: rat) \<le> of_int b" using b(2) by (simp only: of_int_le_iff)
    then show ?thesis using b(1) by (simp add: pow2_of_int)
  qed
  have b2: "of_int b < pow2 lb"
  proof -
    have "(of_int b :: rat) < of_int (2 ^ nat lb)" using b(3) by (simp only: of_int_less_iff)
    then show ?thesis using b(1) by (simp add: pow2_of_int)
  qed
  have bq: "0 < (of_int b :: rat)" using bpos by simp
  have aq: "0 < (of_int a :: rat)" using apos by simp
  have lower: "pow2 (la - lb - 1) < x"
  proof -
    have "pow2 (la - lb - 1) * of_int b < pow2 (la - lb - 1) * pow2 lb"
      using b2 pow2_pos [of "la - lb - 1"] by simp
    also have "\<dots> = pow2 (la - 1)" by (simp add: pow2_add [symmetric])
    also have "\<dots> \<le> of_int a" by (rule a1)
    finally show ?thesis using bq by (simp add: x pos_less_divide_eq)
  qed
  have upper: "x < pow2 (la - lb + 1)"
  proof -
    have "of_int a < pow2 la" by (rule a2)
    also have "\<dots> = pow2 (la - lb + 1) * pow2 (lb - 1)" by (simp add: pow2_add [symmetric])
    also have "\<dots> \<le> pow2 (la - lb + 1) * of_int b"
      using b1 pow2_pos [of "la - lb + 1"] by simp
    finally show ?thesis using bq by (simp add: x pos_divide_less_eq)
  qed
  have fl2: "floor_log2 x = (if pow2 (la - lb) \<le> x then la - lb else la - lb - 1)"
    by (simp add: floor_log2_def q la_def lb_def Let_def)
  show ?thesis
  proof (cases "pow2 (la - lb) \<le> x")
    case True
    then show ?thesis using upper by (simp add: fl2)
  next
    case False
    then show ?thesis using lower by (simp add: fl2)
  qed
qed

lemma round_half_even_of_int: "round_half_even (of_int k) = k"
  by (simp add: round_half_even_def)

lemma round_half_even_error: "\<bar>of_int (round_half_even m) - m\<bar> \<le> 1 / 2"
proof -
  have "of_int \<lfloor>m\<rfloor> \<le> m" "m < of_int \<lfloor>m\<rfloor> + 1" by linarith+
  then show ?thesis
    by (auto simp: round_half_even_def Let_def abs_le_iff)
qed

lemma pow2_split: "a + b = c \<Longrightarrow> pow2 c = pow2 a * pow2 b"
  by (simp add: pow2_add [symmetric])

lemma fl_nonzero:
  assumes "x \<noteq> 0" and "e = max (floor_log2 \<bar>x\<bar>) (- 1022)" and "e \<le> 1022"
  shows "fl x = Finite (of_int (round_half_even (x / pow2 (e - 52))) * pow2 (e - 52))"
proof -
  have "\<not> (1024 \<le> e \<or> (e = 1023 \<and> 2 ^ 53 \<le> \<bar>round_half_even (x / pow2 (e - 52))\<bar>))"
    using assms(3) by simp
  then show ?thesis
    unfolding fl_def Let_def assms(2) [symmetric] using assms(1) by simp
qed

lemma abs_floor_log2:
  assumes "x \<noteq> 0"
  shows "pow2 (floor_log2 \<bar>x\<bar>) \<le> \<bar>x\<bar>" and "\<bar>x\<bar> < pow2 (floor_log2 \<bar>x\<bar> + 1)"
  using floor_log2_bounds [of "\<bar>x\<bar>"] assms by simp_all

lemma fl_exact:
  assumes n: "\<bar>n\<bar> < 2 ^ 53" and E: "- 1074 \<le> E" "E \<le> 971"
  shows "fl (of_int n * pow2 E) = Finite (of_int n * pow2 E)"
proof (cases "n = 0")
  case True
  then show ?thesis by (simp add: fl_def)
next
  case False
  define y :: rat where "y = of_int n * pow2 E"
  have ynz: "y \<noteq> 0" using False pow2_pos [of E] by (simp add: y_def)
  have absy: "\<bar>y\<bar> = of_int \<bar>n\<bar> * pow2 E"
    using pow2_pos [of E] by (simp add: y_def abs_mult)
  define e0 where "e0 = floor_log2 \<bar>y\<bar>"
  define e where "e = max e0 (- 1022)"
  from abs_floor_log2 [OF ynz] have b: "pow2 e0 \<le> \<bar>y\<bar>" "\<bar>y\<bar> < pow2 (e0 + 1)"
    by (simp_all add: e0_def)
  have "(of_int \<bar>n\<bar> :: rat) < of_int (2 ^ 53)" using n by (simp only: of_int_less_iff)
  then have n': "(of_int \<bar>n\<bar> :: rat) < pow2 53" by (simp add: pow2_def)
  have "\<bar>y\<bar> < pow2 53 * pow2 E"
    unfolding absy using n' pow2_pos [of E] by simp
  then have "\<bar>y\<bar> < pow2 (E + 53)" by (simp add: pow2_add mult.commute)
  with b(1) have "pow2 e0 < pow2 (E + 53)" by simp
  then have e0_up: "e0 \<le> E + 52" by (simp add: pow2_less_iff)
  have e_low: "e - 52 \<le> E" using e0_up E by (simp add: e_def)
  have e_up: "e \<le> 1023" using e0_up E by (simp add: e_def)
  define k where "k = nat (E - (e - 52))"
  have Ek: "E = (e - 52) + int k" using e_low by (simp add: k_def)
  have quot: "y / pow2 (e - 52) = of_int (n * 2 ^ k)"
    using pow2_pos [of "e - 52"] by (simp add: y_def Ek pow2_add pow2_nat)
  have r: "round_half_even (y / pow2 (e - 52)) = n * 2 ^ k"
    unfolding quot by (rule round_half_even_of_int)
  have recon: "of_int (n * 2 ^ k) * pow2 (e - 52) = y"
    by (simp add: y_def Ek pow2_add pow2_nat)
  have small: "\<bar>n * 2 ^ k\<bar> < 2 ^ 53"
  proof -
    have "e0 + 1 \<le> e + 1" by (simp add: e_def)
    then have "pow2 (e0 + 1) \<le> pow2 (e + 1)" by (rule pow2_mono)
    with b(2) have "\<bar>y\<bar> < pow2 (e + 1)" by simp
    also have "\<dots> = pow2 53 * pow2 (e - 52)" by (rule pow2_split) simp
    finally have "\<bar>y\<bar> / pow2 (e - 52) < pow2 53"
      using pow2_pos [of "e - 52"] by (simp add: pos_divide_less_eq)
    then have "\<bar>y / pow2 (e - 52)\<bar> < pow2 53"
      using pow2_pos [of "e - 52"] by (simp add: abs_divide)
    then have "(of_int \<bar>n * 2 ^ k\<bar> :: rat) < of_int (2 ^ 53)"
      unfolding quot by (simp add: pow2_def)
    then show ?thesis by (simp only: of_int_less_iff)
  qed
  have "fl y = Finite (of_int (n * 2 ^ k) * pow2 (e - 52))"
    using ynz e_up small r
    by (simp add: fl_def Let_def e_def [symmetric] e0_def [symmetric] del: of_int_mult of_int_power)
  then show ?thesis unfolding recon by (simp add: y_def)
qed

lemma fl_Finite_repr:
  assumes "fl x = Finite y"
  shows "\<exists>n E. y = of_int n * pow2 E \<and> \<bar>n\<bar> < 2 ^ 53 \<and> - 1074 \<le> E \<and> E \<le> 971"
proof (cases "x = 0")
  case True
  with assms have "y = of_int 0 * pow2 0" by (simp add: fl_def)
  then show ?thesis by (intro exI [of _ 0] exI [of _ "0::int"]) simp
next
  case False
  define e where "e = max (floor_log2 \<bar>x\<bar>) (- 1022)"
  define q where "q = pow2 (e - 52)"
  define n where "n = round_half_even (x / q)"
  have qpos: "0 < q" by (simp add: q_def pow2_pos)
  have unf: "fl x = (if 1024 \<le> e \<or> (e = 1023 \<and> 2 ^ 53 \<le> \<bar>n\<bar>)
                     then (if 0 < x then PosInf else NegInf) else Finite (of_int n * q))"
    unfolding fl_def Let_def e_def q_def n_def using False by (simp only: if_False)
  from assms unf have no: "\<not> (1024 \<le> e \<or> (e = 1023 \<and> 2 ^ 53 \<le> \<bar>n\<bar>))"
    by (auto split: if_splits)
  with assms unf have y: "y = of_int n * q" by (auto split: if_splits)
  from no have e_up: "e \<le> 1023" and top: "e = 1023 \<Longrightarrow> \<bar>n\<bar> < 2 ^ 53" by auto
  have e_low: "- 1022 \<le> e" by (simp add: e_def)
  have "floor_log2 \<bar>x\<bar> + 1 \<le> e + 1" by (simp add: e_def)
  then have "pow2 (floor_log2 \<bar>x\<bar> + 1) \<le> pow2 (e + 1)" by (rule pow2_mono)
  with abs_floor_log2(2) [OF False] have "\<bar>x\<bar> < pow2 (e + 1)" by simp
  also have "\<dots> = pow2 53 * q" unfolding q_def by (rule pow2_split) simp
  finally have "\<bar>x\<bar> / q < pow2 53" using qpos by (simp add: pos_divide_less_eq)
  then have xq: "\<bar>x / q\<bar> < 2 ^ 53" using qpos by (simp add: abs_divide pow2_def)
  have "\<bar>of_int n - x / q\<bar> \<le> 1 / 2" unfolding n_def by (rule round_half_even_error)
  with xq have "\<bar>(of_int n :: rat)\<bar> < 2 ^ 53 + 1" by linarith
  then have "(of_int \<bar>n\<bar> :: rat) < of_int (2 ^ 53 + 1)" by simp
  then have nle: "\<bar>n\<bar> < 2 ^ 53 + 1" by (simp only: of_int_less_iff)
  show ?thesis
  proof (cases "\<bar>n\<bar> < 2 ^ 53")
    case True
    show ?thesis
      by (intro exI [of _ n] exI [of _ "e - 52"]) (use True y q_def e_up e_low in simp)
  next
    case big: False
    with nle have nabs: "\<bar>n\<bar> = 2 ^ 53" by simp
    with top e_up have e_up': "e \<le> 1022" by force
    from nabs have "n = 9007199254740992 \<or> n = - 9007199254740992" by (simp add: abs_if split: if_splits)
    then have n2: "n = 2 * (n div 2)" and half: "\<bar>n div 2\<bar> < 2 ^ 53" by auto
    have "q * 2 = pow2 (e - 51)"
      unfolding q_def using pow2_Suc [of "e - 52"] by (simp add: algebra_simps)
    then have "y = of_int (n div 2) * pow2 (e - 51)"
      unfolding y by (subst n2) (simp add: algebra_simps)
    then show ?thesis
      by (intro exI [of _ "n div 2"] exI [of _ "e - 51"]) (use half e_up' e_low in simp)
  qed
qed

lemma fl_idem: "fl x = Finite y \<Longrightarrow> fl y = Finite y"
  using fl_Finite_repr [of x y] fl_exact by blast

lemma fl_cases: "(\<exists>y. fl x = Finite y \<and> fl y = Finite y) \<or> fl x = PosInf \<or> fl x = NegInf"
proof (cases "fl x")
  case (Finite y)
  then show ?thesis using fl_idem by simp
next
  case NaN
  then show ?thesis by (simp add: fl_def Let_def split: if_splits)
qed simp_all

lemma is_double_fl: "is_double (fl x)"
  using fl_cases [of x] by (auto simp: is_double_def)

lemma is_double_fadd: "is_double (fadd v w)"
  by (cases v; cases w) (simp_all add: fadd_def is_double_fl, simp_all add: is_double_def)

lemma is_double_fmul: "is_double (fmul v w)"
  by (cases v; cases w) (simp_all add: fmul_def is_double_fl, simp_all add: is_double_def)

lemma is_double_fdiv: "is_double (fdiv v w)"
  by (cases v; cases w) (simp_all add: fdiv_def is_double_fl, simp_all add: is_double_def fl_def)

lemma fadd_zero_left: "is_double v \<Longrightarrow> fadd (Finite 0) v = v"
  by (cases v) (simp_all add: fadd_def is_double_def)

lemma pow2_tiny: "pow2 (- 1074) \<le> 1 / 10 ^ 9"
proof -
  have "pow2 (- 1074) \<le> pow2 (- 30)" by (rule pow2_mono) simp
  also have "\<dots> \<le> 1 / 10 ^ 9" by (simp add: pow2_def)
  finally show ?thesis .
qed

lemma fadd_Finite: "fadd (Finite a) (Finite b) = fl (a + b)"
  by (simp add: fadd_def)

lemma fdiv_Finite_2: "fdiv (Finite a) (Finite 2) = fl (a / 2)"
  by (simp add: fdiv_def)

lemma half_sum_exact:
  assumes t: "fl t = Finite t" and h: "fl (t / 2) = Finite (t / 2)"
  shows "fadd (fadd (fdiv (Finite t) (Finite 2)) (fdiv (Finite t) (Finite 2))) (Finite 0) = Finite t"
  by (simp add: fdiv_Finite_2 h fadd_Finite t)

lemma half_sum_subnormal:
  assumes n: "\<bar>n\<bar> < 2 ^ 53" and t: "t = of_int n * pow2 (- 1074)" and nz: "n \<noteq> 0"
  shows "\<exists>s. fadd (fadd (fdiv (Finite t) (Finite 2)) (fdiv (Finite t) (Finite 2))) (Finite 0) = Finite s
             \<and> \<bar>s - t\<bar> \<le> 1 / 10 ^ 9"
proof -
  define x where "x = t / 2"
  have x: "x = of_int n * pow2 (- 1075)"
    using pow2_Suc [of "- 1075"] by (simp add: x_def t)
  have xnz: "x \<noteq> 0" using nz pow2_pos [of "- 1075"] by (simp add: x)
  have "(of_int \<bar>n\<bar> :: rat) < of_int (2 ^ 53)" using n by (simp only: of_int_less_iff)
  then have "(of_int \<bar>n\<bar> :: rat) < pow2 53" by (simp add: pow2_def)
  then have "of_int \<bar>n\<bar> * pow2 (- 1075) < pow2 53 * pow2 (- 1075)"
    using pow2_pos [of "- 1075"] by simp
  also have "\<dots> = pow2 (- 1022)" by (rule pow2_split [symmetric]) simp
  finally have xs: "\<bar>x\<bar> < pow2 (- 1022)"
    using pow2_pos [of "- 1075"] by (simp add: x abs_mult)
  from abs_floor_log2(1) [OF xnz] xs have "pow2 (floor_log2 \<bar>x\<bar>) < pow2 (- 1022)" by simp
  then have "floor_log2 \<bar>x\<bar> < - 1022" by (simp add: pow2_less_iff)
  then have e: "- 1022 = max (floor_log2 \<bar>x\<bar>) (- 1022)" by simp
  define m where "m = round_half_even (x / pow2 (- 1074))"
  have flx: "fl x = Finite (of_int m * pow2 (- 1074))"
    using fl_nonzero [OF xnz e] by (simp add: m_def)
  have xq: "x / pow2 (- 1074) = of_int n / 2"
    using pow2_Suc [of "- 1075"] pow2_pos [of "- 1075"] by (simp add: x)
  have "\<bar>of_int m - x / pow2 (- 1074)\<bar> \<le> 1 / 2"
    unfolding m_def by (rule round_half_even_error)
  then have "\<bar>of_int m - of_int n / (2::rat)\<bar> \<le> 1 / 2"
    by (simp only: xq)
  then have "\<bar>2 * of_int m - (of_int n :: rat)\<bar> \<le> 1" by linarith
  then have "(of_int \<bar>2 * m - n\<bar> :: rat) \<le> of_int 1" by simp
  then have d: "\<bar>2 * m - n\<bar> \<le> 1" by (simp only: of_int_le_iff)
  with n have mb: "\<bar>m\<bar> < 2 ^ 53" by simp
  define s where "s = of_int m * pow2 (- 1073)"
  have dbl: "of_int m * pow2 (- 1074) + of_int m * pow2 (- 1074) = s"
    using pow2_Suc [of "- 1074"] by (simp add: s_def)
  have fls: "fl s = Finite s" unfolding s_def by (rule fl_exact [OF mb]) simp_all
  have sum: "fadd (fadd (fdiv (Finite t) (Finite 2)) (fdiv (Finite t) (Finite 2))) (Finite 0) = Finite s"
    by (simp add: fdiv_Finite_2 x_def [symmetric] flx fadd_Finite dbl fls)
  have "s - t = of_int (2 * m - n) * pow2 (- 1074)"
    using pow2_Suc [of "- 1074"] by (simp add: s_def t algebra_simps)
  then have "\<bar>s - t\<bar> = of_int \<bar>2 * m - n\<bar> * pow2 (- 1074)"
    using pow2_pos [of "- 1074"] by (simp add: abs_mult)
  also have "\<dots> \<le> 1 * pow2 (- 1074)"
    using d pow2_pos [of "- 1074"] by (intro mult_right_mono) (simp_all add: of_int_le_1_iff)
  also have "\<dots> \<le> 1 / 10 ^ 9" using pow2_tiny by simp
  finally show ?thesis using sum by blast
qed

lemma half_sum:
  assumes "is_double g"
  shows "approx_eq (fadd (fadd (fdiv g (Finite 2)) (fdiv g (Finite 2))) (Finite 0)) g"
proof (cases g)
  case (Finite t)
  with assms have t: "fl t = Finite t" by (simp add: is_double_def)
  from fl_Finite_repr [OF t] obtain n E
    where r: "t = of_int n * pow2 E" "\<bar>n\<bar> < 2 ^ 53" "- 1074 \<le> E" "E \<le> 971" by blast
  show ?thesis
  proof (cases "n = 0 \<or> - 1073 \<le> E")
    case True
    have "fl (t / 2) = Finite (t / 2)"
    proof (cases "n = 0")
      case True
      then show ?thesis by (simp add: r(1) fl_def)
    next
      case False
      with True have E: "- 1073 \<le> E" by simp
      have "t / 2 = of_int n * pow2 (E - 1)"
        using pow2_Suc [of "E - 1"] by (simp add: r(1))
      moreover have "fl (of_int n * pow2 (E - 1)) = Finite (of_int n * pow2 (E - 1))"
        by (rule fl_exact [OF r(2)]) (use E r(4) in simp_all)
      ultimately show ?thesis by simp
    qed
    from half_sum_exact [OF t this] show ?thesis by (simp add: Finite approx_eq_def)
  next
    case False
    with r(3) have "E = - 1074" "n \<noteq> 0" by simp_all
    with half_sum_subnormal [OF r(2) _ \<open>n \<noteq> 0\<close>, of t] r(1)
    show ?thesis by (auto simp: Finite approx_eq_def)
  qed
next
  case PosInf
  then show ?thesis by (simp add: approx_eq_def fdiv_def fadd_def)
next
  case NegInf
  then show ?thesis by (simp add: approx_eq_def fdiv_def fadd_def)
next
  case NaN
  then show ?thesis by (simp add: approx_eq_def fdiv_def fadd_def)
qed

section \<open>The GST split\<close>

lemma expense_split_intra:
  "calculateGSTAmounts base rt IntraState =
     \<lparr> gstPaidAmount = fdiv (fmul base rt) (Finite 100),
       cgstInputCredit = fdiv (fdiv (fmul base rt) (Finite 100)) (Finite 2),
       sgstInputCredit = fdiv (fdiv (fmul base rt) (Finite 100)) (Finite 2),
       igstInputCredit = Finite 0,
       totalAmount = fadd base (fdiv (fmul base rt) (Finite 100)) \<rparr>"
  by (simp add: calculateGSTAmounts_def Let_def)

lemma expense_split_inter:
  "calculateGSTAmounts base rt InterState =
     \<lparr> gstPaidAmount = fdiv (fmul base rt) (Finite 100),
       cgstInputCredit = Finite 0,
       sgstInputCredit = Finite 0,
       igstInputCredit = fdiv (fmul base rt) (Finite 100),
       totalAmount = fadd base (fdiv (fmul base rt) (Finite 100)) \<rparr>"
  by (simp add: calculateGSTAmounts_def Let_def)

lemma expense_split_na:
  "calculateGSTAmounts base rt NotApplicable =
     \<lparr> gstPaidAmount = Finite 0, cgstInputCredit = Finite 0, sgstInputCredit = Finite 0,
       igstInputCredit = Finite 0, totalAmount = base \<rparr>"
  by (simp add: calculateGSTAmounts_def Let_def)

lemma scenario_item_intra:
  "compute_item IntraState
     \<lparr> product_service_id = [], item_description = ''Widget'', quantity = Finite 2,
       rate = Finite 100, gst_rate_percentage = Finite 18 \<rparr> =
   \<lparr> product_service_id = [], item_description = ''Widget'', quantity = Finite 2,
     rate = Finite 100, gst_rate_percentage = Finite 18, item_total_amount = Finite 200,
     cgst_amount = Finite 18, sgst_amount = Finite 18, igst_amount = Finite 0,
     item_gst_total = Finite 36 \<rparr>"
  by (simp add: compute_item_def Let_def fmul_def fdiv_def fl_200 fl_3600 fl_36 fl_18)

lemma scenario_item_inter:
  "compute_item InterState
     \<lparr> product_service_id = [], item_description = ''Widget'', quantity = Finite 2,
       rate = Finite 100, gst_rate_percentage = Finite 18 \<rparr> =
   \<lparr> product_service_id = [], item_description = ''Widget'', quantity = Finite 2,
     rate = Finite 100, gst_rate_percentage = Finite 18, item_total_amount = Finite 200,
     cgst_amount = Finite 0, sgst_amount = Finite 0, igst_amount = Finite 36,
     item_gst_total = Finite 36 \<rparr>"
  by (simp add: compute_item_def Let_def fmul_def fdiv_def fl_200 fl_3600 fl_36)

lemma scenario_totals:
  "item_total_amount it = Finite 200 \<Longrightarrow> item_gst_total it = Finite 36 \<Longrightarrow>
   aggregate [it] = \<lparr> subTotal = Finite 200, totalGst = Finite 36, totalAmount = Finite 236 \<rparr>"
  by (simp add: aggregate_def Let_def fadd_def fl_200 fl_36 fl_236)

text \<open>
  Claim C1. With \<open>gstTotal = baseAmount * ratePercent / 100\<close> as the code computes it, an
  Intra-State supply gets \<open>cgst = sgst = gstTotal / 2\<close> and \<open>igst = 0\<close>, and an
  Inter-State supply gets \<open>igst = gstTotal\<close> and \<open>cgst = sgst = 0\<close>, in the expense
  computer and in the line items of an invoice alike. One line item with quantity 2, rate
  100 and GST rate 18 has item total 200 and GST 36; it is split 18/18/0 with grand total
  236 within the state, and 0/0/36 with grand total 236 across states.
\<close>

theorem gst_split_by_supply_type:
  "(let g = fdiv (fmul base rt) (Finite 100);
        intra = calculateGSTAmounts base rt IntraState;
        inter = calculateGSTAmounts base rt InterState
    in gstPaidAmount intra = g \<and> cgstInputCredit intra = fdiv g (Finite 2)
       \<and> sgstInputCredit intra = fdiv g (Finite 2) \<and> igstInputCredit intra = Finite 0
       \<and> gstPaidAmount inter = g \<and> igstInputCredit inter = g
       \<and> cgstInputCredit inter = Finite 0 \<and> sgstInputCredit inter = Finite 0)
   \<and> (let itemTotal = fmul (quantity item) (rate item);
          g = fdiv (fmul itemTotal (gst_rate_percentage item)) (Finite 100);
          intra = compute_item IntraState item;
          inter = compute_item InterState item
      in item_total_amount intra = itemTotal \<and> item_gst_total intra = g
         \<and> cgst_amount intra = fdiv g (Finite 2) \<and> sgst_amount intra = fdiv g (Finite 2)
         \<and> igst_amount intra = Finite 0
         \<and> item_total_amount inter = itemTotal \<and> item_gst_total inter = g
         \<and> igst_amount inter = g \<and> cgst_amount inter = Finite 0
         \<and> sgst_amount inter = Finite 0)
   \<and> (let it = \<lparr> product_service_id = [], item_description = ''Widget'',
                   quantity = Finite 2, rate = Finite 100, gst_rate_percentage = Finite 18 \<rparr>;
          a = compute_item IntraState it;
          b = compute_item InterState it
      in item_total_amount a = Finite 200 \<and> item_gst_total a = Finite 36
         \<and> cgst_amount a = Finite 18 \<and> sgst_amount a = Finite 18 \<and> igst_amount a = Finite 0
         \<and> invoice_totals.totalAmount (aggregate [a]) = Finite 236
         \<and> item_total_amount b = Finite 200 \<and> item_gst_total b = Finite 36
         \<and> cgst_amount b = Finite 0 \<and> sgst_amount b = Finite 0 \<and> igst_amount b = Finite 36
         \<and> invoice_totals.totalAmount (aggregate [b]) = Finite 236)"
proof -
  have expense: "let g = fdiv (fmul base rt) (Finite 100);
        intra = calculateGSTAmounts base rt IntraState;
        inter = calculateGSTAmounts base rt InterState
    in gstPaidAmount intra = g \<and> cgstInputCredit intra = fdiv g (Finite 2)
       \<and> sgstInputCredit intra = fdiv g (Finite 2) \<and> igstInputCredit intra = Finite 0
       \<and> gstPaidAmount inter = g \<and> igstInputCredit inter = g
       \<and> cgstInputCredit inter = Finite 0 \<and> sgstInputCredit inter = Finite 0"
    by (simp add: expense_split_intra expense_split_inter Let_def)
  have line: "let itemTotal = fmul (quantity item) (rate item);
          g = fdiv (fmul itemTotal (gst_rate_percentage item)) (Finite 100);
          intra = compute_item IntraState item;
          inter = compute_item InterState item
      in item_total_amount intra = itemTotal \<and> item_gst_total intra = g
         \<and> cgst_amount intra = fdiv g (Finite 2) \<and> sgst_amount intra = fdiv g (Finite 2)
         \<and> igst_amount intra = Finite 0
         \<and> item_total_amount inter = itemTotal \<and> item_gst_total inter = g
         \<and> igst_amount inter = g \<and> cgst_amount inter = Finite 0
         \<and> sgst_amount inter = Finite 0"
    by (simp add: compute_item_def Let_def)
  have scenario: "let it = \<lparr> product_service_id = [], item_description = ''Widget'',
                   quantity = Finite 2, rate = Finite 100, gst_rate_percentage = Finite 18 \<rparr>;
          a = compute_item IntraState it;
          b = compute_item InterState it
      in item_total_amount a = Finite 200 \<and> item_gst_total a = Finite 36
         \<and> cgst_amount a = Finite 18 \<and> sgst_amount a = Finite 18 \<and> igst_amount a = Finite 0
         \<and> invoice_totals.totalAmount (aggregate [a]) = Finite 236
         \<and> item_total_amount b = Finite 200 \<and> item_gst_total b = Finite 36
         \<and> cgst_amount b = Finite 0 \<and> sgst_amount b = Finite 0 \<and> igst_amount b = Finite 36
         \<and> invoice_totals.totalAmount (aggregate [b]) = Finite 236"
    unfolding Let_def scenario_item_intra scenario_item_inter
    by (simp add: scenario_totals)
  from expense line scenario show ?thesis by blast
qed

section \<open>The expense computer\<close>

text \<open>
  Claim C6. For every expense input the expense computer returns
  \<open>totalExpenseAmount = amountBeforeGst + gstPaidAmount\<close>, whatever the supply type. For
  Not Applicable the GST paid and the three input credits are 0, so the total is the amount
  before GST.
\<close>

theorem expense_total_is_amount_plus_gst:
  assumes "is_double amountBeforeGST"
  shows "let r = calculateGSTAmounts amountBeforeGST gstRate supplyType
         in gst_amounts.totalAmount r = fadd amountBeforeGST (gstPaidAmount r)
            \<and> (supplyType = NotApplicable \<longrightarrow>
                 gstPaidAmount r = Finite 0 \<and> cgstInputCredit r = Finite 0
                 \<and> sgstInputCredit r = Finite 0 \<and> igstInputCredit r = Finite 0
                 \<and> gst_amounts.totalAmount r = amountBeforeGST)"
proof (cases supplyType)
  case IntraState
  then show ?thesis by (simp add: expense_split_intra Let_def)
next
  case InterState
  then show ?thesis by (simp add: expense_split_inter Let_def)
next
  case NotApplicable
  then show ?thesis using assms by (simp add: expense_split_na Let_def fadd_zero_right)
qed

text \<open>The scenario of the specification: 1000 before GST at 5 percent, Not Applicable.\<close>

theorem expense_total_is_amount_plus_gst_witness:
  "is_double (Finite 1000)
   \<and> gstPaidAmount (calculateGSTAmounts (Finite 1000) (Finite 5) NotApplicable) = Finite 0
   \<and> gst_amounts.totalAmount (calculateGSTAmounts (Finite 1000) (Finite 5) NotApplicable)
       = Finite 1000"
proof -
  have d: "is_double (Finite 1000)" by (simp add: is_double_def fl_1000)
  from expense_total_is_amount_plus_gst [OF d, of "Finite 5" NotApplicable] d
  show ?thesis by (simp add: Let_def fadd_def fl_1000)
qed

section \<open>The components of the split and the GST total\<close>

lemma fl_5000: "fl 5000 = Finite 5000"
  by code_simp

lemma fl_50: "fl 50 = Finite 50"
  by code_simp

lemma fl_0: "fl 0 = Finite 0"
  by (simp add: fl_def)

lemma inter_sum: "is_double g \<Longrightarrow> fadd (fadd (Finite 0) (Finite 0)) g = g"
  by (simp add: fadd_Finite fl_0 fadd_zero_left)

text \<open>
  Claim C2 says that for every supply type, Not Applicable included, the three components
  sum to \<open>baseAmount * ratePercent / 100\<close>. For 1000 at 5 percent, Not Applicable, the
  components sum to 0 and the computed total is 50.
\<close>

theorem split_sum_not_applicable_counterexample:
  "fadd (fadd (cgstInputCredit (calculateGSTAmounts (Finite 1000) (Finite 5) NotApplicable))
              (sgstInputCredit (calculateGSTAmounts (Finite 1000) (Finite 5) NotApplicable)))
        (igstInputCredit (calculateGSTAmounts (Finite 1000) (Finite 5) NotApplicable))
     = Finite 0
   \<and> fdiv (fmul (Finite 1000) (Finite 5)) (Finite 100) = Finite 50
   \<and> \<not> approx_eq (Finite 0) (Finite 50)"
  by (simp add: expense_split_na fadd_Finite fl_0 fmul_def fdiv_def fl_5000 fl_50 approx_eq_def)

text \<open>
  Claim C2, amended. For Intra-State and Inter-State supply the three components sum to
  the computed GST total \<open>baseAmount * ratePercent / 100\<close>, exactly or within 1e-9, in
  the expense computer and in the line items of an invoice. For Not Applicable the three
  components are 0 whatever the rate.
\<close>

theorem split_components_sum_to_gst_total:
  "(supplyType \<noteq> NotApplicable \<longrightarrow>
      approx_eq
        (fadd (fadd (cgstInputCredit (calculateGSTAmounts base rt supplyType))
                    (sgstInputCredit (calculateGSTAmounts base rt supplyType)))
              (igstInputCredit (calculateGSTAmounts base rt supplyType)))
        (fdiv (fmul base rt) (Finite 100)))
   \<and> (supplyType = NotApplicable \<longrightarrow>
        cgstInputCredit (calculateGSTAmounts base rt supplyType) = Finite 0
        \<and> sgstInputCredit (calculateGSTAmounts base rt supplyType) = Finite 0
        \<and> igstInputCredit (calculateGSTAmounts base rt supplyType) = Finite 0)
   \<and> (supplyType \<noteq> NotApplicable \<longrightarrow>
        approx_eq
          (fadd (fadd (cgst_amount (compute_item supplyType item))
                      (sgst_amount (compute_item supplyType item)))
                (igst_amount (compute_item supplyType item)))
          (fdiv (fmul (fmul (quantity item) (rate item)) (gst_rate_percentage item))
             (Finite 100)))"
proof -
  define g where "g = fdiv (fmul base rt) (Finite 100)"
  define gi where
    "gi = fdiv (fmul (fmul (quantity item) (rate item)) (gst_rate_percentage item)) (Finite 100)"
  have dg: "is_double g" and dgi: "is_double gi"
    by (simp_all add: g_def gi_def is_double_fdiv)
  have intra: "approx_eq (fadd (fadd (fdiv v (Finite 2)) (fdiv v (Finite 2))) (Finite 0)) v"
    if "is_double v" for v using that by (rule half_sum)
  have inter: "approx_eq (fadd (fadd (Finite 0) (Finite 0)) v) v"
    if "is_double v" for v using that by (simp add: inter_sum approx_eq_def)
  show ?thesis
  proof (cases supplyType)
    case IntraState
    then show ?thesis
      using intra [OF dg] intra [OF dgi]
      by (simp add: expense_split_intra compute_item_def Let_def g_def gi_def)
  next
    case InterState
    then show ?thesis
      using inter [OF dg] inter [OF dgi]
      by (simp add: expense_split_inter compute_item_def Let_def g_def gi_def)
  next
    case NotApplicable
    then show ?thesis by (simp add: expense_split_na)
  qed
qed

text \<open>At 1000 and 5 percent: within the state the components sum to the total 50; for Not
  Applicable the components are 0.\<close>

theorem split_components_sum_to_gst_total_witness:
  "IntraState \<noteq> NotApplicable
   \<and> approx_eq
        (fadd (fadd (cgstInputCredit (calculateGSTAmounts (Finite 1000) (Finite 5) IntraState))
                    (sgstInputCredit (calculateGSTAmounts (Finite 1000) (Finite 5) IntraState)))
              (igstInputCredit (calculateGSTAmounts (Finite 1000) (Finite 5) IntraState)))
        (Finite 50)
   \<and> cgstInputCredit (calculateGSTAmounts (Finite 1000) (Finite 5) NotApplicable) = Finite 0"
  using split_components_sum_to_gst_total [of IntraState "Finite 1000" "Finite 5"]
    split_components_sum_to_gst_total [of NotApplicable "Finite 1000" "Finite 5"]
  by (simp add: fmul_def fdiv_def fl_5000 fl_50)

section \<open>The order of summation\<close>

lemma fl_tenth: "fl (1 / 10) = Finite (3602879701896397 / 36028797018963968)"
  by code_simp

lemma fl_fifth: "fl (1 / 5) = Finite (3602879701896397 / 18014398509481984)"
  by code_simp

lemma fl_three_tenths: "fl (3 / 10) = Finite (5404319552844595 / 18014398509481984)"
  by code_simp

lemma sum_tenth_fifth:
  "fadd (Finite (3602879701896397 / 36028797018963968))
        (Finite (3602879701896397 / 18014398509481984))
     = Finite (1351079888211149 / 4503599627370496)"
  by code_simp

lemma sum_tenth_fifth_three_tenths:
  "fadd (Finite (1351079888211149 / 4503599627370496))
        (Finite (5404319552844595 / 18014398509481984))
     = Finite (1351079888211149 / 2251799813685248)"
  by code_simp

lemma sum_three_tenths_fifth:
  "fadd (Finite (5404319552844595 / 18014398509481984))
        (Finite (3602879701896397 / 18014398509481984))
     = Finite (1 / 2)"
  by code_simp

lemma sum_half_tenth:
  "fadd (Finite (1 / 2)) (Finite (3602879701896397 / 36028797018963968))
     = Finite (5404319552844595 / 9007199254740992)"
  by code_simp

lemma fl_hundredth: "fl (1 / 100) = Finite (5764607523034235 / 576460752303423488)"
  by code_simp

lemma item_at_rate_total:
  "item_total_amount (compute_item s (item_at_rate r)) = fl r"
proof -
  have "is_double (fl r)" by (rule is_double_fl)
  then have "fmul (Finite 1) (fl r) = fl r"
    by (cases "fl r") (simp_all add: fmul_def is_double_def fsign_def)
  then show ?thesis by (simp add: compute_item_def item_at_rate_def Let_def)
qed


lemma subTotal_fsum: "subTotal (aggregate its) = fsum (map item_total_amount its)"
  by (simp add: aggregate_def Let_def fsum_def foldl_map)

lemma totalGst_fsum: "totalGst (aggregate its) = fsum (map item_gst_total its)"
  by (simp add: aggregate_def Let_def fsum_def foldl_map)

lemma totalAmount_fadd:
  "invoice_totals.totalAmount (aggregate its)
     = fadd (subTotal (aggregate its)) (totalGst (aggregate its))"
  by (simp add: aggregate_def Let_def)

lemma item_at_rate_valid:
  "fl r = Finite x \<Longrightarrow> 0 \<le> x \<Longrightarrow> item_errors (item_at_rate r) = []"
  by (simp add: item_errors_def item_at_rate_def string_min1_def number_min_def number_max_def
      fge_def fl_hundredth)

text \<open>
  Claim C7 says that every permutation of the line items gives the same subTotal,
  totalGst and grandTotal. Three items of quantity 1 at the rates 0.1, 0.2 and 0.3 pass
  the checks of the schema; summed in this order their subTotal is
  0.6000000000000001, and in the reverse order it is 0.6.
\<close>

theorem aggregate_order_counterexample:
  "mset [item_at_rate (3 / 10), item_at_rate (2 / 10), item_at_rate (1 / 10)]
     = mset [item_at_rate (1 / 10), item_at_rate (2 / 10), item_at_rate (3 / 10)]
   \<and> subTotal (aggregate (map (compute_item IntraState)
         [item_at_rate (1 / 10), item_at_rate (2 / 10), item_at_rate (3 / 10)]))
       = Finite (1351079888211149 / 2251799813685248)
   \<and> subTotal (aggregate (map (compute_item IntraState)
         [item_at_rate (3 / 10), item_at_rate (2 / 10), item_at_rate (1 / 10)]))
       = Finite (5404319552844595 / 9007199254740992)
   \<and> item_errors (item_at_rate (1 / 10)) = []
   \<and> item_errors (item_at_rate (2 / 10)) = []
   \<and> item_errors (item_at_rate (3 / 10)) = []"
proof -
  have perm: "mset [item_at_rate (3 / 10), item_at_rate (2 / 10), item_at_rate (1 / 10)]
     = mset [item_at_rate (1 / 10), item_at_rate (2 / 10), item_at_rate (3 / 10)]"
    by (simp add: add_mset_commute)
  have up: "subTotal (aggregate (map (compute_item IntraState)
         [item_at_rate (1 / 10), item_at_rate (2 / 10), item_at_rate (3 / 10)]))
       = Finite (1351079888211149 / 2251799813685248)"
    unfolding subTotal_fsum
    by (simp add: fsum_def item_at_rate_total fl_tenth fl_fifth fl_three_tenths
        fadd_zero_left is_double_def fl_idem [OF fl_tenth] sum_tenth_fifth
        sum_tenth_fifth_three_tenths)
  have down: "subTotal (aggregate (map (compute_item IntraState)
         [item_at_rate (3 / 10), item_at_rate (2 / 10), item_at_rate (1 / 10)]))
       = Finite (5404319552844595 / 9007199254740992)"
    unfolding subTotal_fsum
    by (simp add: fsum_def item_at_rate_total fl_tenth fl_fifth fl_three_tenths
        fadd_zero_left is_double_def fl_idem [OF fl_three_tenths] sum_three_tenths_fifth
        sum_half_tenth)
  have ok: "item_errors (item_at_rate (1 / 10)) = []" "item_errors (item_at_rate (2 / 10)) = []"
    "item_errors (item_at_rate (3 / 10)) = []"
    by (simp_all add: item_at_rate_valid [OF fl_tenth] item_at_rate_valid [OF fl_fifth]
        item_at_rate_valid [OF fl_three_tenths])
  from perm up down ok show ?thesis by blast
qed


lemma fl_of_int:
  assumes "\<bar>k\<bar> \<le> 2 ^ 53"
  shows "fl (of_int k) = Finite (of_int k)"
proof (cases "\<bar>k\<bar> < 2 ^ 53")
  case True
  from fl_exact [OF True, of 0] show ?thesis by (simp add: pow2_0)
next
  case False
  with assms have "\<bar>k\<bar> = 2 ^ 53" by simp
  then have "k = 9007199254740992 \<or> k = - 9007199254740992"
    by (simp add: abs_if split: if_splits)
  then have k2: "k = 2 * (k div 2)" and half: "\<bar>k div 2\<bar> < 2 ^ 53" by auto
  have "pow2 1 = 2" by (simp add: pow2_def)
  then have "(of_int k :: rat) = of_int (k div 2) * pow2 1"
    by (subst k2) simp
  moreover have "fl (of_int (k div 2) * pow2 1) = Finite (of_int (k div 2) * pow2 1)"
    by (rule fl_exact [OF half]) simp_all
  ultimately show ?thesis by simp
qed

lemma whole_amountE:
  assumes "whole_amount v"
  obtains m where "v = Finite (of_int m)" and "0 \<le> m"
proof -
  from assms obtain x where v: "v = Finite x" and x: "0 \<le> x" "of_int \<lfloor>x\<rfloor> = x"
    by (cases v) (auto simp: whole_amount_def)
  from x(1) have nn: "0 \<le> \<lfloor>x\<rfloor>" by simp
  have "v = Finite (of_int \<lfloor>x\<rfloor>)" by (simp only: v x(2))
  then show thesis using nn by (rule that)
qed

lemma amount_value_Finite: "amount_value (Finite x) = x"
  by (simp add: amount_value_def)

lemma sum_whole_nonneg: "list_all whole_amount vs \<Longrightarrow> 0 \<le> sum_list (map amount_value vs)"
  by (induction vs) (auto simp: whole_amount_def amount_value_def split: number.splits)

lemma foldl_fadd_whole:
  assumes "list_all whole_amount vs" and "0 \<le> k"
    and "of_int k + sum_list (map amount_value vs) \<le> 2 ^ 53"
  shows "foldl fadd (Finite (of_int k)) vs = Finite (of_int k + sum_list (map amount_value vs))"
  using assms
proof (induction vs arbitrary: k)
  case Nil
  then show ?case by simp
next
  case (Cons v vs)
  from Cons.prems(1) have wv: "whole_amount v" and wvs: "list_all whole_amount vs" by simp_all
  from wv obtain m where v: "v = Finite (of_int m)" and m: "0 \<le> m" by (rule whole_amountE)
  have rest: "0 \<le> sum_list (map amount_value vs)" using wvs by (rule sum_whole_nonneg)
  have bound: "of_int (k + m) + sum_list (map amount_value vs) \<le> 2 ^ 53"
    using Cons.prems(3) by (simp add: v amount_value_Finite add.assoc)
  with rest have "(of_int (k + m) :: rat) \<le> of_int (2 ^ 53)" by simp
  then have "k + m \<le> 2 ^ 53" by (simp only: of_int_le_iff)
  with Cons.prems(2) m have "\<bar>k + m\<bar> \<le> 2 ^ 53" by simp
  then have step: "fadd (Finite (of_int k)) (Finite (of_int m)) = Finite (of_int k + of_int m)"
    using fl_of_int [of "k + m"] by (simp add: fadd_Finite)
  have "foldl fadd (Finite (of_int (k + m))) vs
          = Finite (of_int (k + m) + sum_list (map amount_value vs))"
    using wvs Cons.prems(2) m bound by (intro Cons.IH) simp_all
  then show ?case by (simp add: step v amount_value_Finite add.assoc)
qed

lemma fsum_exactly_summable:
  "exactly_summable vs \<Longrightarrow> fsum vs = Finite (sum_list (map amount_value vs))"
  using foldl_fadd_whole [of vs 0] by (simp add: exactly_summable_def fsum_def)

lemma exactly_summable_mset:
  assumes "mset ws = mset vs" and "exactly_summable vs"
  shows "exactly_summable ws" and "sum_list (map amount_value ws) = sum_list (map amount_value vs)"
proof -
  from assms(1) have s: "set ws = set vs" by (rule mset_eq_setD)
  have "mset (map amount_value ws) = mset (map amount_value vs)" using assms(1) by simp
  then have "sum_mset (mset (map amount_value ws)) = sum_mset (mset (map amount_value vs))"
    by simp
  then show e: "sum_list (map amount_value ws) = sum_list (map amount_value vs)"
    by (simp only: sum_mset_sum_list)
  from assms(2) s e show "exactly_summable ws"
    by (simp add: exactly_summable_def list_all_iff)
qed

lemma fsum_permute:
  assumes "mset ws = mset vs" and "exactly_summable vs"
  shows "fsum ws = fsum vs"
  using exactly_summable_mset [OF assms] assms(2) by (simp add: fsum_exactly_summable)

text \<open>
  Claim C7, amended. The sums are accumulated in binary floating point in the order of
  the list. Every permutation of the line items gives the same subTotal, totalGst and
  grandTotal whenever the computed item totals and the computed GST amounts are whole
  non-negative numbers whose sums do not exceed \<open>2^53\<close>, so that no partial sum is
  rounded.
\<close>

theorem aggregate_order_independent_when_exact:
  assumes "mset ys = mset xs"
    and "exactly_summable (map item_total_amount (map (compute_item supply) xs))"
    and "exactly_summable (map item_gst_total (map (compute_item supply) xs))"
  shows "aggregate (map (compute_item supply) ys) = aggregate (map (compute_item supply) xs)"
proof -
  let ?xs = "map (compute_item supply) xs" and ?ys = "map (compute_item supply) ys"
  have "mset (map item_total_amount ?ys) = mset (map item_total_amount ?xs)"
    using assms(1) by simp
  then have sub: "subTotal (aggregate ?ys) = subTotal (aggregate ?xs)"
    unfolding subTotal_fsum using assms(2) by (rule fsum_permute)
  have "mset (map item_gst_total ?ys) = mset (map item_gst_total ?xs)"
    using assms(1) by simp
  then have gst: "totalGst (aggregate ?ys) = totalGst (aggregate ?xs)"
    unfolding totalGst_fsum using assms(3) by (rule fsum_permute)
  have "invoice_totals.totalAmount (aggregate ?ys) = invoice_totals.totalAmount (aggregate ?xs)"
    by (simp only: totalAmount_fadd sub gst)
  with sub gst show ?thesis by (simp add: invoice_totals.equality)
qed


lemma fl_100: "fl 100 = Finite 100"
  by code_simp

lemma fl_1800: "fl 1800 = Finite 1800"
  by code_simp

lemma compute_item_total:
  "item_total_amount (compute_item supply item) = fmul (quantity item) (rate item)"
  by (simp add: compute_item_def Let_def)

lemma compute_item_gst:
  "item_gst_total (compute_item supply item)
     = fdiv (fmul (fmul (quantity item) (rate item)) (gst_rate_percentage item)) (Finite 100)"
  by (simp add: compute_item_def Let_def)

text \<open>Two items with whole totals (200 and 100) and whole GST amounts (36 and 18), in both
  orders.\<close>

theorem aggregate_order_independent_when_exact_witness:
  "mset [\<lparr> product_service_id = [], item_description = ''Gadget'', quantity = Finite 1,
            rate = Finite 100, gst_rate_percentage = Finite 18 \<rparr>,
          \<lparr> product_service_id = [], item_description = ''Widget'', quantity = Finite 2,
            rate = Finite 100, gst_rate_percentage = Finite 18 \<rparr>]
     = mset [\<lparr> product_service_id = [], item_description = ''Widget'', quantity = Finite 2,
              rate = Finite 100, gst_rate_percentage = Finite 18 \<rparr>,
            \<lparr> product_service_id = [], item_description = ''Gadget'', quantity = Finite 1,
              rate = Finite 100, gst_rate_percentage = Finite 18 \<rparr>]
   \<and> aggregate (map (compute_item IntraState)
         [\<lparr> product_service_id = [], item_description = ''Gadget'', quantity = Finite 1,
            rate = Finite 100, gst_rate_percentage = Finite 18 \<rparr>,
          \<lparr> product_service_id = [], item_description = ''Widget'', quantity = Finite 2,
            rate = Finite 100, gst_rate_percentage = Finite 18 \<rparr>])
     = aggregate (map (compute_item IntraState)
         [\<lparr> product_service_id = [], item_description = ''Widget'', quantity = Finite 2,
            rate = Finite 100, gst_rate_percentage = Finite 18 \<rparr>,
          \<lparr> product_service_id = [], item_description = ''Gadget'', quantity = Finite 1,
            rate = Finite 100, gst_rate_percentage = Finite 18 \<rparr>])"
proof -
  let ?w = "\<lparr> product_service_id = [], item_description = ''Widget'', quantity = Finite 2,
              rate = Finite 100, gst_rate_percentage = Finite 18 \<rparr>"
  let ?g = "\<lparr> product_service_id = [], item_description = ''Gadget'', quantity = Finite 1,
              rate = Finite 100, gst_rate_percentage = Finite 18 \<rparr>"
  have p: "mset [?g, ?w] = mset [?w, ?g]" by (simp add: add_mset_commute)
  have t: "exactly_summable (map item_total_amount (map (compute_item IntraState) [?w, ?g]))"
    by (simp add: compute_item_total fmul_def fl_200 fl_100 exactly_summable_def
        whole_amount_def amount_value_def)
  have g: "exactly_summable (map item_gst_total (map (compute_item IntraState) [?w, ?g]))"
    by (simp add: compute_item_gst fmul_def fdiv_def fl_200 fl_100 fl_3600 fl_1800 fl_36 fl_18
        exactly_summable_def whole_amount_def amount_value_def)
  from aggregate_order_independent_when_exact [OF p t g] p show ?thesis by simp
qed

section \<open>Saving an invoice\<close>

lemma onSubmit_no_company: "onSubmit env None ident data db = (NoCompany, db)"
  by (simp add: onSubmit_def)

lemma invoice_update_fields:
  "invoice.id (invoice_update data t r) = invoice.id r"
  "invoice.company_id (invoice_update data t r) = invoice.company_id r"
  "status (invoice_update data t r) = status r"
  "sub_total_amount (invoice_update data t r) = subTotal t"
  "total_gst_amount (invoice_update data t r) = totalGst t"
  "total_invoice_amount (invoice_update data t r) = invoice_totals.totalAmount t"
  by (simp_all add: invoice_update_def)

lemma invoice_insert_fields:
  "invoice.id (invoice_insert n company data t) = n"
  "invoice.company_id (invoice_insert n company data t) = company_profile.id company"
  "status (invoice_insert n company data t) = Draft"
  "sub_total_amount (invoice_insert n company data t) = subTotal t"
  "total_gst_amount (invoice_insert n company data t) = totalGst t"
  "total_invoice_amount (invoice_insert n company data t) = invoice_totals.totalAmount t"
  by (simp_all add: invoice_insert_def)

lemma invoice_id_with_invoice_id: "invoice_id (with_invoice_id i item) = i"
  by (simp add: with_invoice_id_def computed_item.defs)

lemma filter_with_invoice_id:
  "filter (\<lambda>it. invoice_id it = i) (map (with_invoice_id i) its) = map (with_invoice_id i) its"
  "filter (\<lambda>it. invoice_id it \<noteq> i) (map (with_invoice_id i) its) = []"
  by (induction its) (simp_all add: invoice_id_with_invoice_id)

lemma stored_totals_Some:
  assumes "stored_totals t = Some t'"
  shows "numeric 15 2 (subTotal t) = Some (subTotal t')"
    and "numeric 15 2 (totalGst t) = Some (totalGst t')"
    and "numeric 15 2 (invoice_totals.totalAmount t) = Some (invoice_totals.totalAmount t')"
  using assms by (auto simp: stored_totals_def split: option.splits)

lemma rewritten_holds_totals: "rewritten data t r r' \<Longrightarrow> holds_totals t r'"
  by (auto simp: rewritten_def holds_totals_def invoice_update_fields stored_totals_Some
      split: option.splits)

lemma rewritten_status:
  "rewritten data t r r' \<Longrightarrow> invoice.id r' = invoice.id r \<and> status r' = status r"
  by (auto simp: rewritten_def invoice_update_fields split: option.splits)

text \<open>What each request leaves of the store when it succeeds.\<close>

lemma update_invoice_Some:
  assumes "update_invoice env company i data t db = Some db1"
  shows "invoice_items db1 = invoice_items db"
    and "company_profiles db1 = company_profiles db"
    and "list_all2 (\<lambda>r r'. if invoice_addressed db company i r then rewritten data t r r'
                             else r' = r) (invoices db) (invoices db1)"
proof -
  from assms have env: "invoices_request env"
    by (simp add: update_invoice_def split: if_splits)
  show "invoice_items db1 = invoice_items db" and "company_profiles db1 = company_profiles db"
    using assms by (auto simp: update_invoice_def split: if_splits option.splits)
  show "list_all2 (\<lambda>r r'. if invoice_addressed db company i r then rewritten data t r r'
                             else r' = r) (invoices db) (invoices db1)"
  proof (cases "list_ex (invoice_addressed db company i) (invoices db)")
    case False
    with assms env have "db1 = db" by (simp add: update_invoice_def)
    moreover from False have "\<forall>r \<in> set (invoices db). \<not> invoice_addressed db company i r"
      by (simp add: list_ex_iff)
    ultimately show ?thesis by (simp add: list_all2_same)
  next
    case True
    with assms env obtain t' where t': "stored_totals t = Some t'"
      and db1: "db1 = db \<lparr> invoices :=
                         map (\<lambda>r. if invoice_addressed db company i r
                                    then invoice_update data t' r else r)
                           (invoices db) \<rparr>"
      by (auto simp: update_invoice_def split: if_splits option.splits)
    show ?thesis
      unfolding db1 by (simp add: list_all2_map2 list_all2_same rewritten_def t')
  qed
qed

lemma delete_invoice_items_Some:
  assumes "delete_invoice_items env company i db = Some db2"
  shows "invoices db2 = invoices db"
    and "company_profiles db2 = company_profiles db"
    and "invoice_items db2 =
           filter (\<lambda>it. \<not> (invoice_id it = i \<and> items_policy db company i)) (invoice_items db)"
proof -
  from assms have db2: "db2 = db \<lparr> invoice_items :=
                filter (\<lambda>it. \<not> (invoice_id it = i \<and> items_policy db company (invoice_id it)))
                  (invoice_items db) \<rparr>"
    by (simp add: delete_invoice_items_def split: if_splits)
  show "invoices db2 = invoices db" and "company_profiles db2 = company_profiles db"
    by (simp_all add: db2)
  have "(\<lambda>it. \<not> (invoice_id it = i \<and> items_policy db company (invoice_id it)))
          = (\<lambda>it. \<not> (invoice_id it = i \<and> items_policy db company i))"
    by (rule ext) auto
  then show "invoice_items db2 =
           filter (\<lambda>it. \<not> (invoice_id it = i \<and> items_policy db company i)) (invoice_items db)"
    by (simp add: db2)
qed

lemma insert_invoice_items_Some:
  assumes "insert_invoice_items env company i its db = Some db3"
  shows "invoices db3 = invoices db"
    and "\<exists>rows. those (map stored_item its) = Some rows
           \<and> invoice_items db3 = invoice_items db @ map (with_invoice_id i) rows"
    and "its = [] \<or> items_policy db company i"
  using assms by (auto simp: insert_invoice_items_def split: if_splits option.splits)

lemma insert_invoice_Some:
  assumes "insert_invoice env company data t db = Some (row, db1)"
  shows "\<exists>t'. stored_totals t = Some t' \<and> row = invoice_insert (next_uuid db) company data t'"
    and "invoices db1 = invoices db @ [row]"
    and "invoice_items db1 = invoice_items db"
  using assms by (auto simp: insert_invoice_def split: if_splits option.splits)

lemma items_policy_cong:
  "invoices db' = invoices db \<Longrightarrow> company_profiles db' = company_profiles db \<Longrightarrow>
   items_policy db' company i = items_policy db company i"
  by (simp add: items_policy_def owns_def)

lemma items_policy_update:
  assumes "update_invoice env company i data t db = Some db1"
  shows "items_policy db1 company j = items_policy db company j"
proof -
  from update_invoice_Some(3) [OF assms]
  have "list_all2 (\<lambda>r r'. invoice.id r' = invoice.id r
                            \<and> invoice.company_id r' = invoice.company_id r)
          (invoices db) (invoices db1)"
    by (rule list_all2_mono)
      (auto simp: rewritten_def invoice_update_fields split: if_splits option.splits)
  then have "map (\<lambda>r. (invoice.id r, invoice.company_id r)) (invoices db1)
           = map (\<lambda>r. (invoice.id r, invoice.company_id r)) (invoices db)"
    by (induction rule: list_all2_induct) simp_all
  then have "set (map (\<lambda>r. (invoice.id r, invoice.company_id r)) (invoices db1))
           = set (map (\<lambda>r. (invoice.id r, invoice.company_id r)) (invoices db))"
    by simp
  then have "(\<exists>r \<in> set (invoices db1). invoice.id r = j \<and> P (invoice.company_id r))
           = (\<exists>r \<in> set (invoices db). invoice.id r = j \<and> P (invoice.company_id r))" for P
    by (auto simp: image_iff set_eq_iff) (metis, metis)
  then show ?thesis
    by (simp add: items_policy_def list_ex_iff owns_def update_invoice_Some(2) [OF assms])
qed

text \<open>The three ways an update ends.\<close>

lemma onSubmit_update_cases:
  fixes env company i data db
  defines "its \<equiv> map (compute_item (invoice_form.place_of_supply_type data)) (items data)"
  defines "saved \<equiv> onSubmit env (Some company) (Some i) data db"
  shows "(update_invoice env company i data (aggregate its) db = None \<and> saved = (Failed, db))
       \<or> (\<exists>db1. update_invoice env company i data (aggregate its) db = Some db1
              \<and> invoices (snd saved) = invoices db1
              \<and> (fst saved = Failed
                  \<or> (fst saved = Saved
                      \<and> (\<exists>rows. those (map stored_item its) = Some rows
                             \<and> invoice_items (snd saved) =
                                  filter (\<lambda>it. \<not> (invoice_id it = i \<and> items_policy db company i))
                                    (invoice_items db)
                                  @ map (with_invoice_id i) rows)
                      \<and> (its = [] \<or> items_policy db company i))))"
proof (cases "update_invoice env company i data (aggregate its) db")
  case None
  then show ?thesis by (simp add: saved_def onSubmit_def Let_def its_def)
next
  case (Some db1)
  note u = update_invoice_Some [OF Some] items_policy_update [OF Some]
  show ?thesis
  proof (cases "delete_invoice_items env company i db1")
    case None
    with Some show ?thesis by (simp add: saved_def onSubmit_def Let_def its_def)
  next
    case d: (Some db2)
    note del = delete_invoice_items_Some [OF d]
    show ?thesis
    proof (cases "insert_invoice_items env company i its db2")
      case None
      with Some d del show ?thesis by (simp add: saved_def onSubmit_def Let_def its_def)
    next
      case ins: (Some db3)
      note i3 = insert_invoice_items_Some [OF ins]
      have pol: "items_policy db2 company i = items_policy db company i"
        using items_policy_cong [OF del(1) del(2)] u(4) by simp
      from Some d ins have s: "saved = (Saved, db3)"
        by (simp add: saved_def onSubmit_def Let_def its_def)
      from i3(2) obtain rows where rows: "those (map stored_item its) = Some rows"
        "invoice_items db3 = invoice_items db2 @ map (with_invoice_id i) rows" by blast
      have "invoice_items db3 =
              filter (\<lambda>it. \<not> (invoice_id it = i \<and> items_policy db company i)) (invoice_items db)
              @ map (with_invoice_id i) rows"
        using rows(2) del(3) u(1) u(4) by simp
      with Some s rows(1) i3(1) i3(3) del(1) pol show ?thesis by auto
    qed
  qed
qed

text \<open>The three ways a creation ends.\<close>

lemma onSubmit_create_cases:
  fixes env company data db
  defines "its \<equiv> map (compute_item (invoice_form.place_of_supply_type data)) (items data)"
  defines "saved \<equiv> onSubmit env (Some company) None data db"
  shows "saved = (Failed, db)
       \<or> (\<exists>row. invoices (snd saved) = invoices db @ [row]
              \<and> status row = Draft
              \<and> holds_totals (aggregate its) row
              \<and> (fst saved = Failed \<and> invoice_items (snd saved) = invoice_items db
                  \<or> fst saved = Saved
                    \<and> (\<exists>rows. those (map stored_item its) = Some rows
                           \<and> invoice_items (snd saved) =
                                invoice_items db @ map (with_invoice_id (invoice.id row)) rows)))"
proof (cases "insert_invoice env company data (aggregate its) db")
  case None
  then show ?thesis by (simp add: saved_def onSubmit_def Let_def its_def)
next
  case (Some p)
  obtain row db1 where p: "p = (row, db1)" by (cases p)
  note ins = insert_invoice_Some [OF Some [unfolded p]]
  from ins(1) have h: "holds_totals (aggregate its) row" and d: "status row = Draft"
    by (auto simp: holds_totals_def invoice_insert_fields stored_totals_Some)
  show ?thesis
  proof (cases "insert_invoice_items env company (invoice.id row) its db1")
    case None
    with Some p have "saved = (Failed, db1)"
      by (simp add: saved_def onSubmit_def Let_def its_def)
    with ins h d show ?thesis by simp
  next
    case s: (Some db2)
    with Some p have "saved = (Saved, db2)"
      by (simp add: saved_def onSubmit_def Let_def its_def)
    with ins h d insert_invoice_items_Some(1,2) [OF s] show ?thesis by auto
  qed
qed


text \<open>
  Claim C8. A form without line items does not pass the schema: the submission is rejected
  with the issue "At least one item is required", \<open>onSubmit\<close> is not called, and the
  store is left as it was.
\<close>

theorem empty_invoice_rejected:
  assumes "items data = []"
  shows "handleSubmit env companyProfile ident data db = (Rejected (schema_errors data), db)
         \<and> ''At least one item is required'' \<in> set (schema_errors data)"
proof -
  from assms have "''At least one item is required'' \<in> set (schema_errors data)"
    by (simp add: schema_errors_def)
  moreover from this have "schema_errors data \<noteq> []" by auto
  ultimately show ?thesis by (simp add: handleSubmit_def)
qed

text \<open>
  Claim C10. Updating an existing invoice leaves the status of every stored invoice as it
  was, through \<open>onSubmit\<close> and through the validated submission alike, however the requests
  of the update end. Creating an invoice either fails before a row is stored, the store
  being as it was, or stores one new row, whose status is Draft.
\<close>

theorem save_keeps_status:
  "map (\<lambda>r. (invoice.id r, status r))
      (invoices (snd (onSubmit env companyProfile (Some i) data db)))
     = map (\<lambda>r. (invoice.id r, status r)) (invoices db)
   \<and> map (\<lambda>r. (invoice.id r, status r))
        (invoices (snd (handleSubmit env companyProfile (Some i) data db)))
     = map (\<lambda>r. (invoice.id r, status r)) (invoices db)
   \<and> (onSubmit env (Some company) None data db = (Failed, db)
      \<or> (\<exists>row. invoices (snd (onSubmit env (Some company) None data db)) = invoices db @ [row]
              \<and> status row = Draft))
   \<and> invoices (snd (onSubmit env None None data db)) = invoices db"
proof -
  have upd: "map (\<lambda>r. (invoice.id r, status r))
               (invoices (snd (onSubmit env companyProfile (Some i) data db)))
             = map (\<lambda>r. (invoice.id r, status r)) (invoices db)"
  proof (cases companyProfile)
    case None
    then show ?thesis by (simp add: onSubmit_no_company)
  next
    case (Some company)
    let ?t = "aggregate (map (compute_item (invoice_form.place_of_supply_type data)) (items data))"
    from onSubmit_update_cases [of env company i data db]
    consider "onSubmit env (Some company) (Some i) data db = (Failed, db)"
      | db1 where "update_invoice env company i data ?t db = Some db1"
          "invoices (snd (onSubmit env (Some company) (Some i) data db)) = invoices db1"
      by blast
    then show ?thesis
    proof cases
      case 1
      then show ?thesis by (simp add: Some)
    next
      case 2
      from update_invoice_Some(3) [OF 2(1)]
      have "list_all2 (\<lambda>r r'. (invoice.id r', status r') = (invoice.id r, status r))
              (invoices db) (invoices db1)"
        by (rule list_all2_mono) (auto dest: rewritten_status split: if_splits)
      then have "map (\<lambda>r. (invoice.id r, status r)) (invoices db1)
               = map (\<lambda>r. (invoice.id r, status r)) (invoices db)"
        by (induction rule: list_all2_induct) simp_all
      then show ?thesis by (simp add: Some 2(2))
    qed
  qed
  then have sub: "map (\<lambda>r. (invoice.id r, status r))
        (invoices (snd (handleSubmit env companyProfile (Some i) data db)))
     = map (\<lambda>r. (invoice.id r, status r)) (invoices db)"
    by (simp add: handleSubmit_def)
  from onSubmit_create_cases [of env company data db]
  have new: "onSubmit env (Some company) None data db = (Failed, db)
      \<or> (\<exists>row. invoices (snd (onSubmit env (Some company) None data db)) = invoices db @ [row]
              \<and> status row = Draft)"
    by blast
  have none: "invoices (snd (onSubmit env None None data db)) = invoices db"
    by (simp add: onSubmit_no_company)
  from upd sub new none show ?thesis by blast
qed

lemma example_totals:
  "aggregate (map (compute_item (invoice_form.place_of_supply_type example_form))
                (items example_form))
     = \<lparr> subTotal = Finite 200, totalGst = Finite 36, totalAmount = Finite 236 \<rparr>"
  by code_simp

lemma numeric_examples:
  "numeric 15 2 (Finite 200) = Some (Finite 200)"
  "numeric 15 2 (Finite 36) = Some (Finite 36)"
  "numeric 15 2 (Finite 236) = Some (Finite 236)"
  by code_simp+

lemma example_update:
  "onSubmit all_through (Some example_company) (Some 7) example_form example_db =
     (Saved,
      example_db
        \<lparr> invoices :=
            [invoice_update example_form
               \<lparr> subTotal = Finite 200, totalGst = Finite 36, totalAmount = Finite 236 \<rparr>
               example_invoice],
          invoice_items :=
            [with_invoice_id 7
               \<lparr> product_service_id = ''0b5c2f0e-7a41-4c6d-9e1b-3d2f8a6c4e10'',
                 item_description = ''Widget'', quantity = Finite 2, rate = Finite 100,
                 gst_rate_percentage = Finite 18, item_total_amount = Finite 200,
                 cgst_amount = Finite 18, sgst_amount = Finite 18, igst_amount = Finite 0,
                 item_gst_total = Finite 36 \<rparr>] \<rparr>)"
  by code_simp

lemma example_create:
  "onSubmit all_through (Some example_company) None example_form example_db =
     (Saved,
      example_db
        \<lparr> invoices :=
            [example_invoice,
             invoice_insert 8 example_company example_form
               \<lparr> subTotal = Finite 200, totalGst = Finite 36, totalAmount = Finite 236 \<rparr>],
          invoice_items :=
            example_old_items @
            [with_invoice_id 8
               \<lparr> product_service_id = ''0b5c2f0e-7a41-4c6d-9e1b-3d2f8a6c4e10'',
                 item_description = ''Widget'', quantity = Finite 2, rate = Finite 100,
                 gst_rate_percentage = Finite 18, item_total_amount = Finite 200,
                 cgst_amount = Finite 18, sgst_amount = Finite 18, igst_amount = Finite 0,
                 item_gst_total = Finite 36 \<rparr>],
          next_uuid := 9 \<rparr>)"
  by code_simp


text \<open>The example form with its only item removed.\<close>

theorem empty_invoice_rejected_witness:
  "items (example_form \<lparr> items := [] \<rparr>) = []
   \<and> handleSubmit all_through (Some example_company) (Some 7) (example_form \<lparr> items := [] \<rparr>)
        example_db
       = (Rejected [''At least one item is required''], example_db)"
proof -
  have e: "items (example_form \<lparr> items := [] \<rparr>) = []" by simp
  have "schema_errors (example_form \<lparr> items := [] \<rparr>) = [''At least one item is required'']"
    by (simp add: schema_errors_def example_form_def string_min1_def)
  with empty_invoice_rejected [OF e, of all_through "Some example_company" "Some 7" example_db] e
  show ?thesis by simp
qed

text \<open>The example invoice, which is Sent, is updated, and a new invoice is created from the
  same form, every request getting through: the first is still Sent, the second is stored
  as a Draft.\<close>

theorem save_keeps_status_witness:
  "fst (onSubmit all_through (Some example_company) None example_form example_db) = Saved
   \<and> length (invoices (snd (onSubmit all_through (Some example_company) None example_form
        example_db))) = 2
   \<and> status (last (invoices (snd (onSubmit all_through (Some example_company) None
        example_form example_db)))) = Draft
   \<and> map (\<lambda>r. (invoice.id r, status r))
        (invoices (snd (onSubmit all_through (Some example_company) (Some 7) example_form
           example_db))) = [(7, Sent)]
   \<and> sub_total_amount (hd (invoices (snd (onSubmit all_through (Some example_company) (Some 7)
        example_form example_db)))) = Finite 200"
proof -
  let ?new = "onSubmit all_through (Some example_company) None example_form example_db"
  let ?upd = "onSubmit all_through (Some example_company) (Some 7) example_form example_db"
  note inst = save_keeps_status
    [where env = all_through and company = example_company and companyProfile = "Some example_company"
       and i = 7 and data = example_form and db = example_db]
  have ok: "fst ?new = Saved" by (simp add: example_create)
  then have "?new \<noteq> (Failed, example_db)" by auto
  with inst obtain row where row: "invoices (snd ?new) = invoices example_db @ [row]"
    "status row = Draft" by blast
  then have a: "length (invoices (snd ?new)) = 2"
    and b: "status (last (invoices (snd ?new))) = Draft"
    by (simp_all add: example_db_def)
  from inst have c: "map (\<lambda>r. (invoice.id r, status r)) (invoices (snd ?upd)) = [(7, Sent)]"
    by (simp add: example_db_def example_invoice_def)
  have d: "sub_total_amount (hd (invoices (snd ?upd))) = Finite 200"
    by (simp add: example_update invoice_update_fields)
  from ok a b c d show ?thesis by blast
qed

text \<open>A line typed in by hand, without choosing a product, carries the empty text as its
  \<open>product_service_id\<close>. The update of the invoice and the delete of its lines succeed; the
  insert of the new lines is refused, and \<open>onSubmit\<close> reports the failure: the invoice is
  left with the new totals and without lines.\<close>

lemma save_without_product_fails:
  "onSubmit all_through (Some example_company) (Some 7) typed_form example_db =
     (Failed,
      example_db
        \<lparr> invoices :=
            [invoice_update typed_form
               \<lparr> subTotal = Finite 200, totalGst = Finite 36, totalAmount = Finite 236 \<rparr>
               example_invoice],
          invoice_items := [] \<rparr>)"
  by code_simp

text \<open>Each total is rounded to two decimals in its own column. Three quarters of a unit at
  9.99 and 5 percent are stored as 7.49, 0.37 and 7.87: the stored grand total is not the
  sum of the stored subtotal and the stored GST.\<close>

lemma stored_totals_need_not_add:
  "map (\<lambda>r. (sub_total_amount r, total_gst_amount r, total_invoice_amount r))
      (invoices (snd (onSubmit all_through (Some example_company) (Some 7) cents_form
         example_db)))
     = [(fl (749 / 100), fl (37 / 100), fl (787 / 100))]"
  "fadd (fl (749 / 100)) (fl (37 / 100)) = fl (786 / 100)"
  "fl (786 / 100) \<noteq> fl (787 / 100)"
  by code_simp+

section \<open>The profit and loss report\<close>

lemma foldl_fadd_map:
  "foldl (\<lambda>sum r. fadd sum (g r)) (Finite 0) rows = fsum (map g rows)"
  by (simp add: fsum_def foldl_map)

lemma sales_query:
  "lte invoice.invoice_date endDate
     (gte invoice.invoice_date startDate
       (neq status Draft (eq invoice.company_id c (invoices db))))
   = filter (\<lambda>r. invoice.company_id r = c \<and> status r \<noteq> Draft
                  \<and> startDate \<le> invoice.invoice_date r \<and> invoice.invoice_date r \<le> endDate)
       (invoices db)"
  by (simp add: lte_def gte_def neq_def eq_def conj_commute conj_left_commute)

lemma expense_query:
  "lte expense_date endDate
     (gte expense_date startDate
       (eq expense_account_id a (eq expense.company_id c (expenses db))))
   = filter (\<lambda>e. expense.company_id e = c \<and> expense_account_id e = a
                  \<and> startDate \<le> expense_date e \<and> expense_date e \<le> endDate)
       (expenses db)"
  by (simp add: lte_def gte_def eq_def conj_commute conj_left_commute)

lemma account_query:
  "order_by account.account_name
     (eq account.account_type Expense (eq account.company_id c (database.accounts db)))
   = sort_key account.account_name
       (filter (\<lambda>a. account.company_id a = c \<and> account.account_type a = Expense)
          (database.accounts db))"
  by (simp add: order_by_def eq_def conj_commute)


lemma or_zero_id: "v \<noteq> NaN \<Longrightarrow> or_zero v = v"
  by (auto simp: or_zero_def)

lemma map_or_zero_id: "NaN \<notin> g ` set rows \<Longrightarrow> map (\<lambda>r. or_zero (g r)) rows = map g rows"
  by (induction rows) (auto simp: or_zero_id)

lemma fetchReportData_Some:
  "fetchReportData (Some company) startDate endDate db st =
     \<lparr> totalSales =
         or_zero (fsum (map (\<lambda>r. or_zero (sub_total_amount r))
           (filter (\<lambda>r. invoice.company_id r = company_profile.id company \<and> status r \<noteq> Draft
                          \<and> startDate \<le> invoice.invoice_date r
                          \<and> invoice.invoice_date r \<le> endDate)
              (invoices db)))),
       expensesByAccount =
         map (\<lambda>a. \<lparr> account = a,
                     total = or_zero (fsum (map (\<lambda>e. or_zero (amount_before_gst e))
                       (filter (\<lambda>e. expense.company_id e = company_profile.id company
                                      \<and> expense_account_id e = account.id a
                                      \<and> startDate \<le> expense_date e \<and> expense_date e \<le> endDate)
                          (expenses db)))) \<rparr>)
           (sort_key account.account_name
              (filter (\<lambda>a. account.company_id a = company_profile.id company
                             \<and> account.account_type a = Expense)
                 (database.accounts db))) \<rparr>"
  unfolding fetchReportData_def Let_def option.case sales_query expense_query account_query
    foldl_fadd_map
  by (rule refl)

lemma netProfit_eq:
  "netProfit st = fsub (totalSales st) (fsum (map account_summary.total (expensesByAccount st)))"
  by (simp add: netProfit_def totalExpenses_def foldl_fadd_map)


lemma fl_500: "fl 500 = Finite 500"
  by code_simp

lemma fl_800: "fl 800 = Finite 800"
  by code_simp

lemma fl_minus_300: "fl (- 300) = Finite (- 300)"
  by code_simp

lemma pl_scenario:
  "fetchReportData (Some example_company) ''2025-06-01'' ''2025-06-30'' pl_db empty_report =
     \<lparr> totalSales = Finite 500,
       expensesByAccount =
         [\<lparr> account = \<lparr> account.id = 2, account.company_id = 1,
                         account.account_name = ''Rent'', account.account_type = Expense,
                         is_default = False \<rparr>,
            total = Finite 800 \<rparr>] \<rparr>"
  unfolding fetchReportData_Some
  by (simp add: pl_db_def example_company_def example_invoice_def fsum_def fadd_Finite
      or_zero_def fl_500 fl_800)

text \<open>
  Claim C4. For a company and a date range, totalSales is the sum of \<open>sub_total_amount\<close>
  over the invoices of the company in the range whose status is not Draft (with \<open>|| 0\<close>
  applied to each amount and to the sum, which changes nothing unless a NaN occurs); no
  Draft invoice is among them, and removing every Draft invoice from the store changes
  nothing. Each Expense account of the company gets the sum of \<open>amount_before_gst\<close> over
  the expenses of the company in the range tagged to it, and
  \<open>netProfit = totalSales - \<Sum> per-account totals\<close>, with its sign. One Sent invoice of
  500 and one Draft invoice of 9999 in the range give totalSales 500; with 800 of expenses
  the net profit is -300, shown as a loss of 300.
\<close>

theorem profit_and_loss_totals:
  "(let st' = fetchReportData (Some company) startDate endDate db st;
        sold = filter (\<lambda>r. invoice.company_id r = company_profile.id company
                            \<and> status r \<noteq> Draft
                            \<and> startDate \<le> invoice.invoice_date r
                            \<and> invoice.invoice_date r \<le> endDate) (invoices db);
        accts = sort_key account.account_name
                  (filter (\<lambda>a. account.company_id a = company_profile.id company
                                 \<and> account.account_type a = Expense) (database.accounts db));
        spent = (\<lambda>a. filter (\<lambda>e. expense.company_id e = company_profile.id company
                                   \<and> expense_account_id e = account.id a
                                   \<and> startDate \<le> expense_date e
                                   \<and> expense_date e \<le> endDate) (expenses db))
    in totalSales st' = or_zero (fsum (map (\<lambda>r. or_zero (sub_total_amount r)) sold))
       \<and> (NaN \<notin> sub_total_amount ` set sold \<and> fsum (map sub_total_amount sold) \<noteq> NaN \<longrightarrow>
            totalSales st' = fsum (map sub_total_amount sold))
       \<and> Draft \<notin> status ` set sold
       \<and> totalSales (fetchReportData (Some company) startDate endDate
            (db \<lparr> invoices := filter (\<lambda>r. status r \<noteq> Draft) (invoices db) \<rparr>) st)
          = totalSales st'
       \<and> expensesByAccount st' =
            map (\<lambda>a. \<lparr> account = a,
                        total = or_zero (fsum (map (\<lambda>e. or_zero (amount_before_gst e))
                                                 (spent a))) \<rparr>) accts
       \<and> netProfit st' =
            fsub (totalSales st') (fsum (map account_summary.total (expensesByAccount st'))))
   \<and> totalSales (fetchReportData (Some example_company) ''2025-06-01'' ''2025-06-30'' pl_db
        empty_report) = Finite 500
   \<and> netProfit (fetchReportData (Some example_company) ''2025-06-01'' ''2025-06-30'' pl_db
        empty_report) = Finite (- 300)
   \<and> net_profit_shown (fetchReportData (Some example_company) ''2025-06-01'' ''2025-06-30''
        pl_db empty_report) = (''Loss'', Finite 300)"
proof -
  define sold where
    "sold = filter (\<lambda>r. invoice.company_id r = company_profile.id company
                            \<and> status r \<noteq> Draft
                            \<and> startDate \<le> invoice.invoice_date r
                            \<and> invoice.invoice_date r \<le> endDate) (invoices db)"
  have sales: "totalSales (fetchReportData (Some company) startDate endDate db st)
                 = or_zero (fsum (map (\<lambda>r. or_zero (sub_total_amount r)) sold))"
    unfolding fetchReportData_Some sold_def by simp
  have plain: "totalSales (fetchReportData (Some company) startDate endDate db st)
                 = fsum (map sub_total_amount sold)"
    if "NaN \<notin> sub_total_amount ` set sold" and "fsum (map sub_total_amount sold) \<noteq> NaN"
    using that by (simp add: sales map_or_zero_id or_zero_id)
  have nodraft: "Draft \<notin> status ` set sold" by (auto simp: sold_def)
  have drop: "totalSales (fetchReportData (Some company) startDate endDate
            (db \<lparr> invoices := filter (\<lambda>r. status r \<noteq> Draft) (invoices db) \<rparr>) st)
          = totalSales (fetchReportData (Some company) startDate endDate db st)"
    unfolding fetchReportData_Some by (simp add: conj_left_commute cong: conj_cong)
  have byacct: "expensesByAccount (fetchReportData (Some company) startDate endDate db st) =
            map (\<lambda>a. \<lparr> account = a,
                        total = or_zero (fsum (map (\<lambda>e. or_zero (amount_before_gst e))
                          (filter (\<lambda>e. expense.company_id e = company_profile.id company
                                   \<and> expense_account_id e = account.id a
                                   \<and> startDate \<le> expense_date e
                                   \<and> expense_date e \<le> endDate) (expenses db)))) \<rparr>)
              (sort_key account.account_name
                  (filter (\<lambda>a. account.company_id a = company_profile.id company
                                 \<and> account.account_type a = Expense) (database.accounts db)))"
    unfolding fetchReportData_Some by simp
  have general: "let st' = fetchReportData (Some company) startDate endDate db st;
        sold = filter (\<lambda>r. invoice.company_id r = company_profile.id company
                            \<and> status r \<noteq> Draft
                            \<and> startDate \<le> invoice.invoice_date r
                            \<and> invoice.invoice_date r \<le> endDate) (invoices db);
        accts = sort_key account.account_name
                  (filter (\<lambda>a. account.company_id a = company_profile.id company
                                 \<and> account.account_type a = Expense) (database.accounts db));
        spent = (\<lambda>a. filter (\<lambda>e. expense.company_id e = company_profile.id company
                                   \<and> expense_account_id e = account.id a
                                   \<and> startDate \<le> expense_date e
                                   \<and> expense_date e \<le> endDate) (expenses db))
    in totalSales st' = or_zero (fsum (map (\<lambda>r. or_zero (sub_total_amount r)) sold))
       \<and> (NaN \<notin> sub_total_amount ` set sold \<and> fsum (map sub_total_amount sold) \<noteq> NaN \<longrightarrow>
            totalSales st' = fsum (map sub_total_amount sold))
       \<and> Draft \<notin> status ` set sold
       \<and> totalSales (fetchReportData (Some company) startDate endDate
            (db \<lparr> invoices := filter (\<lambda>r. status r \<noteq> Draft) (invoices db) \<rparr>) st)
          = totalSales st'
       \<and> expensesByAccount st' =
            map (\<lambda>a. \<lparr> account = a,
                        total = or_zero (fsum (map (\<lambda>e. or_zero (amount_before_gst e))
                                                 (spent a))) \<rparr>) accts
       \<and> netProfit st' =
            fsub (totalSales st') (fsum (map account_summary.total (expensesByAccount st')))"
    unfolding Let_def sold_def [symmetric]
    using sales plain nodraft drop byacct netProfit_eq by blast
  have s1: "totalSales (fetchReportData (Some example_company) ''2025-06-01'' ''2025-06-30'' pl_db
        empty_report) = Finite 500"
    by (simp add: pl_scenario)
  have s2: "netProfit (fetchReportData (Some example_company) ''2025-06-01'' ''2025-06-30'' pl_db
        empty_report) = Finite (- 300)"
    unfolding netProfit_eq pl_scenario
    by (simp add: fsum_def fadd_Finite fl_800 fsub_def fneg_def fl_minus_300)
  have s3: "net_profit_shown (fetchReportData (Some example_company) ''2025-06-01''
        ''2025-06-30'' pl_db empty_report) = (''Loss'', Finite 300)"
    unfolding net_profit_shown_def s2 by (simp add: fge_def fabs_def)
  from general s1 s2 s3 show ?thesis by blast
qed


lemma pl_sold:
  "filter (\<lambda>r. invoice.company_id r = company_profile.id example_company
                 \<and> status r \<noteq> Draft
                 \<and> ''2025-06-01'' \<le> invoice.invoice_date r
                 \<and> invoice.invoice_date r \<le> ''2025-06-30'') (invoices pl_db)
   = [example_invoice \<lparr> invoice.invoice_date := ''2025-06-10'' \<rparr>]"
  by (simp add: pl_db_def example_company_def example_invoice_def)

text \<open>The store of the scenario: one Sent invoice of 500 and one Draft invoice of 9999 in
  June 2025.\<close>

theorem profit_and_loss_totals_witness:
  "NaN \<notin> sub_total_amount ` set
     (filter (\<lambda>r. invoice.company_id r = company_profile.id example_company
                    \<and> status r \<noteq> Draft
                    \<and> ''2025-06-01'' \<le> invoice.invoice_date r
                    \<and> invoice.invoice_date r \<le> ''2025-06-30'') (invoices pl_db))
   \<and> fsum (map sub_total_amount
        (filter (\<lambda>r. invoice.company_id r = company_profile.id example_company
                       \<and> status r \<noteq> Draft
                       \<and> ''2025-06-01'' \<le> invoice.invoice_date r
                       \<and> invoice.invoice_date r \<le> ''2025-06-30'') (invoices pl_db)))
       = Finite 500
   \<and> totalSales (fetchReportData (Some example_company) ''2025-06-01'' ''2025-06-30'' pl_db
        empty_report)
       = fsum (map sub_total_amount
           (filter (\<lambda>r. invoice.company_id r = company_profile.id example_company
                          \<and> status r \<noteq> Draft
                          \<and> ''2025-06-01'' \<le> invoice.invoice_date r
                          \<and> invoice.invoice_date r \<le> ''2025-06-30'') (invoices pl_db)))"
proof -
  have a: "NaN \<notin> sub_total_amount ` set
     (filter (\<lambda>r. invoice.company_id r = company_profile.id example_company
                    \<and> status r \<noteq> Draft
                    \<and> ''2025-06-01'' \<le> invoice.invoice_date r
                    \<and> invoice.invoice_date r \<le> ''2025-06-30'') (invoices pl_db))"
    unfolding pl_sold by (simp add: example_invoice_def)
  have b: "fsum (map sub_total_amount
        (filter (\<lambda>r. invoice.company_id r = company_profile.id example_company
                       \<and> status r \<noteq> Draft
                       \<and> ''2025-06-01'' \<le> invoice.invoice_date r
                       \<and> invoice.invoice_date r \<le> ''2025-06-30'') (invoices pl_db)))
       = Finite 500"
    unfolding pl_sold by (simp add: example_invoice_def fsum_def fadd_Finite fl_500)
  from profit_and_loss_totals
    [of example_company "''2025-06-01''" "''2025-06-30''" pl_db empty_report]
  have "NaN \<notin> sub_total_amount ` set
     (filter (\<lambda>r. invoice.company_id r = company_profile.id example_company
                    \<and> status r \<noteq> Draft
                    \<and> ''2025-06-01'' \<le> invoice.invoice_date r
                    \<and> invoice.invoice_date r \<le> ''2025-06-30'') (invoices pl_db))
     \<and> fsum (map sub_total_amount
        (filter (\<lambda>r. invoice.company_id r = company_profile.id example_company
                       \<and> status r \<noteq> Draft
                       \<and> ''2025-06-01'' \<le> invoice.invoice_date r
                       \<and> invoice.invoice_date r \<le> ''2025-06-30'') (invoices pl_db))) \<noteq> NaN
     \<longrightarrow> totalSales (fetchReportData (Some example_company) ''2025-06-01'' ''2025-06-30'' pl_db
        empty_report)
       = fsum (map sub_total_amount
           (filter (\<lambda>r. invoice.company_id r = company_profile.id example_company
                          \<and> status r \<noteq> Draft
                          \<and> ''2025-06-01'' \<le> invoice.invoice_date r
                          \<and> invoice.invoice_date r \<le> ''2025-06-30'') (invoices pl_db)))"
    unfolding Let_def by blast
  with a b show ?thesis by simp
qed

section \<open>The GST summary report\<close>

text \<open>The two loops of \<open>fetchGSTData\<close>, head by head.\<close>

lemma items_loop:
  "foldl (\<lambda>acc item.
            acc \<lparr> sales_gst.cgst := fadd (sales_gst.cgst acc) (or_zero (cgst_amount item)),
                  sales_gst.sgst := fadd (sales_gst.sgst acc) (or_zero (sgst_amount item)),
                  sales_gst.igst := fadd (sales_gst.igst acc) (or_zero (igst_amount item)) \<rparr>)
     acc its
   = acc \<lparr> sales_gst.cgst := foldl fadd (sales_gst.cgst acc) (map (\<lambda>it. or_zero (cgst_amount it)) its),
           sales_gst.sgst := foldl fadd (sales_gst.sgst acc) (map (\<lambda>it. or_zero (sgst_amount it)) its),
           sales_gst.igst := foldl fadd (sales_gst.igst acc) (map (\<lambda>it. or_zero (igst_amount it)) its) \<rparr>"
  by (induction its arbitrary: acc) simp_all

lemma invoices_loop:
  "foldl (\<lambda>acc invoice.
            foldl (\<lambda>acc item.
                     acc \<lparr> sales_gst.cgst := fadd (sales_gst.cgst acc) (or_zero (cgst_amount item)),
                           sales_gst.sgst := fadd (sales_gst.sgst acc) (or_zero (sgst_amount item)),
                           sales_gst.igst := fadd (sales_gst.igst acc) (or_zero (igst_amount item)) \<rparr>)
              (acc \<lparr> sales_gst.taxableValue :=
                       fadd (sales_gst.taxableValue acc) (or_zero (sub_total_amount invoice)) \<rparr>)
              (items_of invoice))
     acc invs
   = \<lparr> sales_gst.taxableValue =
         foldl fadd (sales_gst.taxableValue acc) (map (\<lambda>r. or_zero (sub_total_amount r)) invs),
       cgst = foldl fadd (sales_gst.cgst acc)
                (map (\<lambda>it. or_zero (cgst_amount it)) (concat (map items_of invs))),
       sgst = foldl fadd (sales_gst.sgst acc)
                (map (\<lambda>it. or_zero (sgst_amount it)) (concat (map items_of invs))),
       igst = foldl fadd (sales_gst.igst acc)
                (map (\<lambda>it. or_zero (igst_amount it)) (concat (map items_of invs))) \<rparr>"
proof -
  define step where
    "step = (\<lambda>(acc :: sales_gst) invoice.
            foldl (\<lambda>acc item.
                     acc \<lparr> sales_gst.cgst := fadd (sales_gst.cgst acc) (or_zero (cgst_amount item)),
                           sales_gst.sgst := fadd (sales_gst.sgst acc) (or_zero (sgst_amount item)),
                           sales_gst.igst := fadd (sales_gst.igst acc) (or_zero (igst_amount item)) \<rparr>)
              (acc \<lparr> sales_gst.taxableValue :=
                       fadd (sales_gst.taxableValue acc) (or_zero (sub_total_amount invoice)) \<rparr>)
              (items_of invoice))"
  have step_eq: "step acc inv =
      \<lparr> sales_gst.taxableValue =
          fadd (sales_gst.taxableValue acc) (or_zero (sub_total_amount inv)),
        cgst = foldl fadd (sales_gst.cgst acc) (map (\<lambda>it. or_zero (cgst_amount it)) (items_of inv)),
        sgst = foldl fadd (sales_gst.sgst acc) (map (\<lambda>it. or_zero (sgst_amount it)) (items_of inv)),
        igst = foldl fadd (sales_gst.igst acc) (map (\<lambda>it. or_zero (igst_amount it)) (items_of inv)) \<rparr>"
    for acc inv
    unfolding step_def items_loop by simp
  have "foldl step acc invs
   = \<lparr> sales_gst.taxableValue =
         foldl fadd (sales_gst.taxableValue acc) (map (\<lambda>r. or_zero (sub_total_amount r)) invs),
       cgst = foldl fadd (sales_gst.cgst acc)
                (map (\<lambda>it. or_zero (cgst_amount it)) (concat (map items_of invs))),
       sgst = foldl fadd (sales_gst.sgst acc)
                (map (\<lambda>it. or_zero (sgst_amount it)) (concat (map items_of invs))),
       igst = foldl fadd (sales_gst.igst acc)
                (map (\<lambda>it. or_zero (igst_amount it)) (concat (map items_of invs))) \<rparr>"
  proof (induction invs arbitrary: acc)
    case Nil
    show ?case by simp
  next
    case (Cons inv invs)
    have fields:
      "sales_gst.taxableValue (step acc inv)
         = fadd (sales_gst.taxableValue acc) (or_zero (sub_total_amount inv))"
      "sales_gst.cgst (step acc inv)
         = foldl fadd (sales_gst.cgst acc) (map (\<lambda>it. or_zero (cgst_amount it)) (items_of inv))"
      "sales_gst.sgst (step acc inv)
         = foldl fadd (sales_gst.sgst acc) (map (\<lambda>it. or_zero (sgst_amount it)) (items_of inv))"
      "sales_gst.igst (step acc inv)
         = foldl fadd (sales_gst.igst acc) (map (\<lambda>it. or_zero (igst_amount it)) (items_of inv))"
      by (simp_all add: step_eq)
    show ?case
      by (simp only: foldl_Cons list.map concat.simps map_append foldl_append Cons.IH fields)
  qed
  then show ?thesis unfolding step_def .
qed

lemma expenses_loop:
  "foldl (\<lambda>acc expense.
            acc \<lparr> purchases_gst.taxableValue :=
                    fadd (purchases_gst.taxableValue acc) (or_zero (amount_before_gst expense)),
                  cgstInput := fadd (cgstInput acc) (or_zero (cgst_input_credit expense)),
                  sgstInput := fadd (sgstInput acc) (or_zero (sgst_input_credit expense)),
                  igstInput := fadd (igstInput acc) (or_zero (igst_input_credit expense)) \<rparr>)
     acc exps
   = \<lparr> purchases_gst.taxableValue =
         foldl fadd (purchases_gst.taxableValue acc) (map (\<lambda>e. or_zero (amount_before_gst e)) exps),
       cgstInput = foldl fadd (cgstInput acc) (map (\<lambda>e. or_zero (cgst_input_credit e)) exps),
       sgstInput = foldl fadd (sgstInput acc) (map (\<lambda>e. or_zero (sgst_input_credit e)) exps),
       igstInput = foldl fadd (igstInput acc) (map (\<lambda>e. or_zero (igst_input_credit e)) exps) \<rparr>"
  by (induction exps arbitrary: acc) simp_all


lemma gst_expense_query:
  "lte expense_date endDate
     (gte expense_date startDate (eq expense.company_id c (expenses db)))
   = filter (\<lambda>e. expense.company_id e = c
                  \<and> startDate \<le> expense_date e \<and> expense_date e \<le> endDate)
       (expenses db)"
  by (simp add: lte_def gte_def eq_def conj_commute conj_left_commute)

lemma fetchGSTData_Some:
  "fetchGSTData (Some company) startDate endDate db st =
     \<lparr> sales =
         \<lparr> sales_gst.taxableValue =
             fsum (map (\<lambda>r. or_zero (sub_total_amount r))
               (filter (\<lambda>r. invoice.company_id r = company_profile.id company
                              \<and> status r \<noteq> Draft
                              \<and> startDate \<le> invoice.invoice_date r
                              \<and> invoice.invoice_date r \<le> endDate) (invoices db))),
           cgst = fsum (map (\<lambda>it. or_zero (cgst_amount it))
               (concat (map (\<lambda>inv. filter (\<lambda>it. invoice_id it = invoice.id inv)
                                        (invoice_items db))
                  (filter (\<lambda>r. invoice.company_id r = company_profile.id company
                                 \<and> status r \<noteq> Draft
                                 \<and> startDate \<le> invoice.invoice_date r
                                 \<and> invoice.invoice_date r \<le> endDate) (invoices db))))),
           sgst = fsum (map (\<lambda>it. or_zero (sgst_amount it))
               (concat (map (\<lambda>inv. filter (\<lambda>it. invoice_id it = invoice.id inv)
                                        (invoice_items db))
                  (filter (\<lambda>r. invoice.company_id r = company_profile.id company
                                 \<and> status r \<noteq> Draft
                                 \<and> startDate \<le> invoice.invoice_date r
                                 \<and> invoice.invoice_date r \<le> endDate) (invoices db))))),
           igst = fsum (map (\<lambda>it. or_zero (igst_amount it))
               (concat (map (\<lambda>inv. filter (\<lambda>it. invoice_id it = invoice.id inv)
                                        (invoice_items db))
                  (filter (\<lambda>r. invoice.company_id r = company_profile.id company
                                 \<and> status r \<noteq> Draft
                                 \<and> startDate \<le> invoice.invoice_date r
                                 \<and> invoice.invoice_date r \<le> endDate) (invoices db))))) \<rparr>,
       purchases =
         \<lparr> purchases_gst.taxableValue =
             fsum (map (\<lambda>e. or_zero (amount_before_gst e))
               (filter (\<lambda>e. expense.company_id e = company_profile.id company
                              \<and> startDate \<le> expense_date e \<and> expense_date e \<le> endDate)
                  (expenses db))),
           cgstInput = fsum (map (\<lambda>e. or_zero (cgst_input_credit e))
               (filter (\<lambda>e. expense.company_id e = company_profile.id company
                              \<and> startDate \<le> expense_date e \<and> expense_date e \<le> endDate)
                  (expenses db))),
           sgstInput = fsum (map (\<lambda>e. or_zero (sgst_input_credit e))
               (filter (\<lambda>e. expense.company_id e = company_profile.id company
                              \<and> startDate \<le> expense_date e \<and> expense_date e \<le> endDate)
                  (expenses db))),
           igstInput = fsum (map (\<lambda>e. or_zero (igst_input_credit e))
               (filter (\<lambda>e. expense.company_id e = company_profile.id company
                              \<and> startDate \<le> expense_date e \<and> expense_date e \<le> endDate)
                  (expenses db))) \<rparr> \<rparr>"
  unfolding fetchGSTData_def Let_def option.case sales_query gst_expense_query
  unfolding invoices_loop expenses_loop
  unfolding eq_def fsum_def
  by simp


lemma with_invoice_id_amounts:
  "cgst_amount (with_invoice_id i item) = cgst_amount item"
  "sgst_amount (with_invoice_id i item) = sgst_amount item"
  "igst_amount (with_invoice_id i item) = igst_amount item"
  by (simp_all add: with_invoice_id_def computed_item.defs)

lemma fl_400: "fl 400 = Finite 400"
  by code_simp

lemma fl_20: "fl 20 = Finite 20"
  by code_simp

lemma fl_minus_2: "fl (- 2) = Finite (- 2)"
  by code_simp

lemma gst_scenario:
  "fetchGSTData (Some example_company) ''2025-06-01'' ''2025-06-30'' gst_db empty_summary =
     \<lparr> sales = \<lparr> sales_gst.taxableValue = Finite 200, cgst = Finite 18, sgst = Finite 18,
                   igst = Finite 0 \<rparr>,
       purchases = \<lparr> purchases_gst.taxableValue = Finite 400, cgstInput = Finite 20,
                       sgstInput = Finite 20, igstInput = Finite 0 \<rparr> \<rparr>"
  unfolding fetchGSTData_Some
  by (simp add: gst_db_def example_company_def example_invoice_def fsum_def fadd_Finite
      or_zero_def invoice_id_with_invoice_id with_invoice_id_amounts scenario_item_intra
      fl_0 fl_200 fl_18 fl_20 fl_400)

lemma shortest_decimal_minus: "shortest_decimal (- x) = - shortest_decimal x"
  by (simp add: shortest_decimal_def)

lemma magnitude_text_fabs: "magnitude_text (fabs v) = magnitude_text v"
proof (cases v)
  case (Finite x)
  have "\<bar>shortest_decimal \<bar>x\<bar>\<bar> = \<bar>shortest_decimal x\<bar>"
    by (cases "0 \<le> x") (simp_all add: abs_if shortest_decimal_minus)
  then show ?thesis by (simp add: Finite fabs_def magnitude_text_def)
qed (simp_all add: fabs_def magnitude_text_def)

lemma magnitude_text_2: "magnitude_text (Finite 2) = ''2.00''"
  by code_simp

text \<open>Two nets that differ are printed alike.\<close>

lemma small_credits_shown_alike:
  "net_gst_shown (fl (- 1 / 10000)) = ''0.00 (Credit)''"
  "net_gst_shown (fl (- 4 / 10000)) = ''0.00 (Credit)''"
  by code_simp+



section \<open>Default accounts\<close>

lemma ids_fresh_unique:
  assumes "ids_fresh db" and "a \<in> set (database.accounts db)" and "d \<in> set (database.accounts db)"
    and "account.id d = account.id a"
  shows "d = a"
proof -
  from assms(1) have "inj_on account.id (set (database.accounts db))"
    by (simp add: ids_fresh_def distinct_map)
  with assms(2-4) show ?thesis by (auto dest: inj_onD)
qed

lemma guarded_member:
  "ids_fresh db \<Longrightarrow> a \<in> set (database.accounts db) \<Longrightarrow> guarded db a"
  by (auto simp: guarded_def list_all_iff dest: ids_fresh_unique)

lemma fetchAccounts_db: "snd (fetchAccounts cp (page, db)) = db"
  by (simp add: fetchAccounts_def split: option.splits)

lemma fetchAccounts_inv_Some:
  assumes "ids_fresh db"
    and "case editingAccount page of None \<Rightarrow> True | Some e \<Rightarrow> \<not> is_default e \<and> guarded db e"
  shows "page_inv (fetchAccounts (Some company) (page, db))"
proof -
  have "list_all (guarded db)
          (order_by (\<lambda>a. account_type_text (account.account_type a))
             (order_by account.account_name
                (eq account.company_id (company_profile.id company) (database.accounts db))))"
    using assms(1) by (auto simp: list_all_iff order_by_def eq_def intro: guarded_member)
  with assms show ?thesis by (simp add: fetchAccounts_def page_inv_def)
qed

lemma fetchAccounts_inv:
  assumes "ids_fresh db"
    and "case editingAccount page of None \<Rightarrow> True | Some e \<Rightarrow> \<not> is_default e \<and> guarded db e"
    and "list_all (guarded db) (accounts_page.accounts page)"
  shows "page_inv (fetchAccounts cp (page, db))"
proof (cases cp)
  case None
  with assms show ?thesis by (simp add: fetchAccounts_def page_inv_def)
next
  case (Some company)
  have "list_all (guarded db)
          (order_by (\<lambda>a. account_type_text (account.account_type a))
             (order_by account.account_name
                (eq account.company_id (company_profile.id company) (database.accounts db))))"
    using assms(1) by (auto simp: list_all_iff order_by_def eq_def intro: guarded_member)
  with assms(1,2) show ?thesis by (simp add: Some fetchAccounts_def page_inv_def)
qed


text \<open>The update of \<open>onSubmit\<close> on the rows of the table.\<close>

lemma update_keeps_defaults:
  fixes c :: uuid and n :: string and t :: account_type
  assumes e: "\<not> is_default e" "guarded db e"
  defines "f \<equiv> (\<lambda>r :: account. if account.id r = account.id e \<and> account.company_id r = c
                      then r \<lparr> account.account_name := n, account.account_type := t \<rparr> else r)"
  shows "filter is_default (map f (database.accounts db)) = filter is_default (database.accounts db)"
    and "map account.id (map f (database.accounts db)) = map account.id (database.accounts db)"
    and "\<And>d'. d' \<in> set (map f (database.accounts db)) \<Longrightarrow>
           \<exists>d \<in> set (database.accounts db).
             account.id d = account.id d' \<and> is_default d = is_default d'"
proof -
  have same: "f r = r" if "r \<in> set (database.accounts db)" "is_default r" for r
  proof -
    from e that have "account.id r \<noteq> account.id e"
      by (auto simp: guarded_def list_all_iff)
    then show ?thesis by (simp add: f_def)
  qed
  have flag: "is_default (f r) = is_default r" and ident: "account.id (f r) = account.id r" for r
    by (simp_all add: f_def)
  have "filter is_default (map f rows) = filter is_default rows"
    if "set rows \<subseteq> set (database.accounts db)" for rows
    using that by (induction rows) (auto simp: flag same)
  then show "filter is_default (map f (database.accounts db))
               = filter is_default (database.accounts db)" by simp
  show "map account.id (map f (database.accounts db)) = map account.id (database.accounts db)"
    by (simp add: comp_def ident)
  show "\<exists>d \<in> set (database.accounts db).
           account.id d = account.id d' \<and> is_default d = is_default d'"
    if "d' \<in> set (map f (database.accounts db))" for d'
    using that by (auto simp: flag ident)
qed

lemma account_onSubmit_step:
  assumes "page_inv (page, db)"
  shows "page_inv (account_onSubmit cp data (page, db))
         \<and> defaults (snd (account_onSubmit cp data (page, db))) = defaults db"
proof (cases cp)
  case None
  with assms show ?thesis by (simp add: account_onSubmit_def)
next
  case (Some company)
  note cp = Some
  from assms have fresh: "ids_fresh db" by (simp add: page_inv_def)
  show ?thesis
  proof (cases "editingAccount page")
    case None
    define row where
      "row = \<lparr> account.id = next_uuid db, account.company_id = company_profile.id company,
                account.account_name = account_form.account_name data,
                account.account_type = account_form.account_type data, is_default = False \<rparr>"
    define db' where
      "db' = db \<lparr> database.accounts := database.accounts db @ [row],
                  next_uuid := Suc (next_uuid db) \<rparr>"
    have res: "account_onSubmit (Some company) data (page, db)
                 = fetchAccounts (Some company) (closeModal page, db')"
      by (simp add: account_onSubmit_def None db'_def row_def)
    have fresh': "ids_fresh db'"
      using fresh by (auto simp: ids_fresh_def db'_def row_def list_all_iff)
    have d: "defaults db' = defaults db" by (simp add: defaults_def db'_def row_def)
    have "page_inv (fetchAccounts (Some company) (closeModal page, db'))"
      by (rule fetchAccounts_inv_Some [OF fresh']) (simp add: closeModal_def)
    with d show ?thesis unfolding cp res by (simp add: fetchAccounts_db)
  next
    case (Some e)
    from assms Some have e: "\<not> is_default e" "guarded db e" by (simp_all add: page_inv_def)
    define f :: "account \<Rightarrow> account" where
      "f = (\<lambda>r. if account.id r = account.id e
                     \<and> account.company_id r = company_profile.id company
                  then r \<lparr> account.account_name := account_form.account_name data,
                           account.account_type := account_form.account_type data \<rparr>
                  else r)"
    define db' where "db' = db \<lparr> database.accounts := map f (database.accounts db) \<rparr>"
    have res: "account_onSubmit (Some company) data (page, db)
                 = fetchAccounts (Some company) (closeModal page, db')"
      by (simp add: account_onSubmit_def Some db'_def f_def)
    note u = update_keeps_defaults [OF e, where c = "company_profile.id company"
        and n = "account_form.account_name data" and t = "account_form.account_type data",
        folded f_def]
    have fresh': "ids_fresh db'"
    proof -
      have "list_all (\<lambda>a. account.id a < next_uuid db) (map f (database.accounts db))"
        using fresh by (auto simp: ids_fresh_def list_all_iff f_def)
      moreover have "distinct (map account.id (map f (database.accounts db)))"
        using fresh unfolding u(2) by (simp add: ids_fresh_def)
      ultimately show ?thesis by (simp add: ids_fresh_def db'_def del: map_map)
    qed
    have d: "defaults db' = defaults db" using u(1) by (simp add: defaults_def db'_def)
    have "page_inv (fetchAccounts (Some company) (closeModal page, db'))"
      by (rule fetchAccounts_inv_Some [OF fresh']) (simp add: closeModal_def)
    with d show ?thesis unfolding cp res by (simp add: fetchAccounts_db)
  qed
qed


lemma guarded_filter:
  "guarded db a \<Longrightarrow>
   guarded (db \<lparr> database.accounts := filter P (database.accounts db) \<rparr>) a"
  by (auto simp: guarded_def list_all_iff)

lemma deleteAccount_step:
  assumes "page_inv (page, db)"
  shows "page_inv (deleteAccount cp confirmed ident (page, db))
         \<and> defaults (snd (deleteAccount cp confirmed ident (page, db))) = defaults db"
proof (cases cp)
  case None
  with assms show ?thesis by (simp add: deleteAccount_def)
next
  case (Some company)
  note cp = Some
  from assms have fresh: "ids_fresh db"
    and ed: "case editingAccount page of None \<Rightarrow> True
             | Some e \<Rightarrow> \<not> is_default e \<and> guarded db e"
    by (simp_all add: page_inv_def)
  define doomed where
    "doomed = eq is_default False
                (eq account.company_id (company_profile.id company)
                   (eq account.id ident (database.accounts db)))"
  define db' where
    "db' = db \<lparr> database.accounts := filter (\<lambda>r. r \<notin> set doomed) (database.accounts db) \<rparr>"
  have nd: "\<not> is_default r" if "r \<in> set doomed" for r
    using that by (simp add: doomed_def eq_def)
  have "deleteAccount (Some company) confirmed ident (page, db) = (page, db)
        \<or> deleteAccount (Some company) confirmed ident (page, db)
            = fetchAccounts (Some company) (page, db')"
    by (simp add: deleteAccount_def Let_def doomed_def db'_def)
  then consider (kept) "deleteAccount (Some company) confirmed ident (page, db) = (page, db)"
    | (gone) "deleteAccount (Some company) confirmed ident (page, db)
                = fetchAccounts (Some company) (page, db')"
    by blast
  then show ?thesis
  proof cases
    case kept
    with assms show ?thesis by (simp add: cp)
  next
    case gone
    have fresh': "ids_fresh db'"
      using fresh by (simp add: ids_fresh_def db'_def distinct_map_filter list_all_iff)
    have ed': "case editingAccount page of None \<Rightarrow> True
               | Some e \<Rightarrow> \<not> is_default e \<and> guarded db' e"
      using ed unfolding db'_def by (auto split: option.splits intro: guarded_filter)
    have "filter is_default (filter (\<lambda>r. r \<notin> set doomed) rows) = filter is_default rows"
      for rows by (induction rows) (auto dest: nd)
    then have d: "defaults db' = defaults db" by (simp add: defaults_def db'_def)
    have "page_inv (fetchAccounts (Some company) (page, db'))"
      using fresh' ed' by (rule fetchAccounts_inv_Some)
    with d show ?thesis unfolding cp gone by (simp add: fetchAccounts_db)
  qed
qed

lemma handle_step:
  assumes "page_inv st"
  shows "page_inv (handle cp ev st) \<and> defaults (snd (handle cp ev st)) = defaults (snd st)"
proof -
  obtain page db where st: "st = (page, db)" by (cases st)
  from assms have inv: "page_inv (page, db)" by (simp add: st)
  then have fresh: "ids_fresh db"
    and pg: "list_all (guarded db) (accounts_page.accounts page)"
    and ed: "case editingAccount page of None \<Rightarrow> True
             | Some e \<Rightarrow> \<not> is_default e \<and> guarded db e"
    by (simp_all add: page_inv_def)
  show ?thesis
  proof (cases "cp = None")
    case True
    with inv show ?thesis by (simp add: handle_def st)
  next
    case False
    show ?thesis
    proof (cases ev)
      case Load
      have "page_inv (fetchAccounts cp (page, db))" using fresh ed pg by (rule fetchAccounts_inv)
      then show ?thesis using False inv by (auto simp: handle_def st Load fetchAccounts_db)
    next
      case ClickAdd
      with inv False show ?thesis by (simp add: handle_def st page_inv_def openModal_def)
    next
      case (ClickEdit a)
      show ?thesis
      proof (cases "a \<in> set (accounts_page.accounts page) \<and> \<not> is_default a")
        case True
        with pg have "guarded db a" by (simp add: list_all_iff)
        with True inv False show ?thesis
          by (simp add: handle_def st ClickEdit page_inv_def openModal_def)
      next
        case no: False
        with inv False show ?thesis by (auto simp: handle_def st ClickEdit)
      qed
    next
      case (ClickDelete a confirmed)
      from deleteAccount_step [OF inv, of cp confirmed "account.id a"] inv False
      show ?thesis by (auto simp: handle_def st ClickDelete)
    next
      case ClickClose
      with inv False show ?thesis by (auto simp: handle_def st page_inv_def closeModal_def)
    next
      case (SubmitForm data)
      from account_onSubmit_step [OF inv, of cp data] inv False
      show ?thesis by (auto simp: handle_def st SubmitForm)
    qed
  qed
qed

lemma run_steps:
  "page_inv st \<Longrightarrow>
   page_inv (run cp evs st) \<and> defaults (snd (run cp evs st)) = defaults (snd st)"
proof (induction evs arbitrary: st)
  case Nil
  then show ?case by simp
next
  case (Cons ev evs)
  from handle_step [OF Cons.prems, of cp ev]
  have h: "page_inv (handle cp ev st)"
    and d: "defaults (snd (handle cp ev st)) = defaults (snd st)" by simp_all
  from Cons.IH [OF h] d show ?case by simp
qed

lemma initial_page_inv: "ids_fresh db \<Longrightarrow> page_inv (initial_page, db)"
  by (simp add: page_inv_def initial_page_def)


lemma create_default_accounts_rows:
  "database.accounts (create_default_accounts cid db)
     = database.accounts db @ six_defaults (next_uuid db) cid"
  "next_uuid (create_default_accounts cid db) = next_uuid db + 6"
  by (simp_all add: create_default_accounts_def six_defaults_def)

lemma six_defaults_facts:
  "length (six_defaults first cid) = 6"
  "list_all (\<lambda>a. is_default a \<and> account.company_id a = cid) (six_defaults first cid)"
  "map account.id (six_defaults first cid) = [first, first + 1, first + 2, first + 3, first + 4, first + 5]"
  by (simp_all add: six_defaults_def)

lemma createCompanyProfile_rows:
  "\<exists>profile. fst (createCompanyProfile (Some user) data db) = Some profile
       \<and> company_profile.id profile = next_uuid db
       \<and> database.accounts (snd (createCompanyProfile (Some user) data db))
           = database.accounts db @ six_defaults (Suc (next_uuid db)) (next_uuid db)
       \<and> next_uuid (snd (createCompanyProfile (Some user) data db)) = next_uuid db + 7"
  by (simp add: createCompanyProfile_def Let_def create_default_accounts_rows)

lemma createCompanyProfile_fresh:
  assumes "ids_fresh db"
  shows "ids_fresh (snd (createCompanyProfile (Some user) data db))"
proof -
  from createCompanyProfile_rows [of user data db]
  have rows: "database.accounts (snd (createCompanyProfile (Some user) data db))
           = database.accounts db @ six_defaults (Suc (next_uuid db)) (next_uuid db)"
    and nxt: "next_uuid (snd (createCompanyProfile (Some user) data db)) = next_uuid db + 7"
    by auto
  from assms have old: "\<forall>a \<in> set (database.accounts db). account.id a < next_uuid db"
    and dis: "distinct (map account.id (database.accounts db))"
    by (simp_all add: ids_fresh_def list_all_iff)
  have "distinct (map account.id (database.accounts db)
                  @ map account.id (six_defaults (Suc (next_uuid db)) (next_uuid db)))"
    using old dis by (auto simp: six_defaults_facts(3))
  moreover have "list_all (\<lambda>a. account.id a < next_uuid db + 7)
      (database.accounts db @ six_defaults (Suc (next_uuid db)) (next_uuid db))"
    using old by (auto simp: list_all_iff six_defaults_def)
  ultimately show ?thesis by (simp add: ids_fresh_def rows nxt)
qed

text \<open>Creating a company profile appends exactly six accounts to the accounts table, all of
  them default accounts of the new company, with the six fixed names.\<close>

lemma default_accounts_seeded:
  "\<exists>profile six.
       fst (createCompanyProfile (Some user) data db) = Some profile
       \<and> company_profile.id profile = next_uuid db
       \<and> database.accounts (snd (createCompanyProfile (Some user) data db))
           = database.accounts db @ six
       \<and> length six = 6
       \<and> list_all (\<lambda>a. is_default a \<and> account.company_id a = company_profile.id profile) six
       \<and> map account.account_name six =
            [''Sales'', ''Purchases/Direct Expenses'', ''Bank Account'', ''Cash in Hand'',
             ''GST Payable'', ''GST Input Credit'']"
proof -
  from createCompanyProfile_rows [of user data db] obtain profile
    where p: "fst (createCompanyProfile (Some user) data db) = Some profile"
      "company_profile.id profile = next_uuid db"
      "database.accounts (snd (createCompanyProfile (Some user) data db))
           = database.accounts db @ six_defaults (Suc (next_uuid db)) (next_uuid db)"
    by blast
  have names: "map account.account_name (six_defaults (Suc (next_uuid db)) (next_uuid db)) =
            [''Sales'', ''Purchases/Direct Expenses'', ''Bank Account'', ''Cash in Hand'',
             ''GST Payable'', ''GST Input Credit'']"
    by (simp add: six_defaults_def)
  show ?thesis
    using p six_defaults_facts(1,2) [where first = "Suc (next_uuid db)" and cid = "next_uuid db"]
      names
    by (intro exI [of _ profile] exI [of _ "six_defaults (Suc (next_uuid db)) (next_uuid db)"])
      simp
qed

text \<open>Starting from the page as mounted, no sequence of the actions the chart-of-accounts
  page offers (loading, opening the form to add or to edit, submitting it, deleting with or
  without confirmation, closing the form) changes the default accounts of the store: the
  edit and delete buttons of a default account are disabled.\<close>

lemma page_keeps_default_accounts:
  assumes "ids_fresh db"
  shows "filter is_default (database.accounts (snd (run companyProfile events (initial_page, db))))
          = filter is_default (database.accounts db)"
  using run_steps [OF initial_page_inv [OF assms], of companyProfile events]
  by (simp add: defaults_def)

text \<open>A delete request removes no default account, whoever sends it: the policy of the
  table hides the default accounts from it.\<close>

lemma delete_account_keeps_defaults:
  "filter is_default (database.accounts (delete_account uid ident db))
     = filter is_default (database.accounts db)"
proof -
  define doomed where
    "doomed = filter (\<lambda>r. account.id r = ident \<and> accounts_delete_policy db uid r)
                     (database.accounts db)"
  have "\<forall>r \<in> set doomed. \<not> is_default r"
    by (simp add: doomed_def accounts_delete_policy_def)
  then have "filter is_default (filter (\<lambda>r. r \<notin> set doomed) (database.accounts db))
           = filter is_default (database.accounts db)"
    by (auto intro: filter_cong)
  then show ?thesis
    by (simp add: delete_account_def Let_def doomed_def [symmetric])
qed

lemma seeded_db_eq:
  "seeded_db =
     \<lparr> company_profiles = [seeded_company], database.accounts = six_defaults 1 0, invoices = [],
       invoice_items = [], expenses = [], next_uuid = 7 \<rparr>"
  "company_profile.id seeded_company = 0"
  "user_id seeded_company = 0"
  by (simp_all add: seeded_db_def seeded_company_def createCompanyProfile_def Let_def
      create_default_accounts_def six_defaults_def empty_db_def)

lemma seeded_fresh: "ids_fresh seeded_db"
  by (simp add: seeded_db_eq ids_fresh_def six_defaults_def)

text \<open>A store seeded by the creation of one company. On the page, the user tries to edit
  and to delete the default account Sales, which the page does not allow, and then adds the
  account Rent: the six default accounts are as they were seeded.\<close>

lemma example_run:
  "database.accounts (snd (run (Some seeded_company) example_events (initial_page, seeded_db)))
     = six_defaults 1 0 @
       [\<lparr> account.id = 7, account.company_id = 0, account.account_name = ''Rent'',
          account.account_type = Expense, is_default = False \<rparr>]"
  by (simp add: example_events_def seeded_db_eq handle_def fetchAccounts_def account_onSubmit_def
      deleteAccount_def openModal_def closeModal_def initial_page_def six_defaults_def
      order_by_def eq_def account_type_text_def Let_def)

text \<open>
  Claim C9. The claim does not hold of the code: a default account can be edited. In the
  store seeded for one company, whose first account is the default account Sales, the
  owner of the company sends the update request of the page for that account: the store
  accepts it and the row now reads Takings, a Liability, still marked as default. The same
  row is what \<open>onSubmit\<close> of the page writes once the account being edited is a default
  account. The delete request for the same account removes nothing.
\<close>

theorem default_account_edited:
  "database.accounts seeded_db = six_defaults 1 0
   \<and> hd (six_defaults 1 0) =
       \<lparr> account.id = 1, account.company_id = 0, account.account_name = ''Sales'',
         account.account_type = Income, is_default = True \<rparr>
   \<and> database.accounts
       (update_account 0 1
          \<lparr> account_form.account_name = ''Takings'', account_form.account_type = Liability \<rparr>
          seeded_db)
       = \<lparr> account.id = 1, account.company_id = 0, account.account_name = ''Takings'',
           account.account_type = Liability, is_default = True \<rparr> # tl (six_defaults 1 0)
   \<and> database.accounts
       (snd (account_onSubmit (Some seeded_company)
          \<lparr> account_form.account_name = ''Takings'', account_form.account_type = Liability \<rparr>
          (initial_page \<lparr> editingAccount := Some (hd (six_defaults 1 0)), showModal := True \<rparr>,
           seeded_db)))
       = \<lparr> account.id = 1, account.company_id = 0, account.account_name = ''Takings'',
           account.account_type = Liability, is_default = True \<rparr> # tl (six_defaults 1 0)
   \<and> database.accounts (delete_account 0 1 seeded_db) = six_defaults 1 0"
proof -
  have a: "database.accounts seeded_db = six_defaults 1 0" by (simp add: seeded_db_eq)
  have b: "hd (six_defaults 1 0) =
       \<lparr> account.id = 1, account.company_id = 0, account.account_name = ''Sales'',
         account.account_type = Income, is_default = True \<rparr>"
    by (simp add: six_defaults_def)
  have c: "database.accounts
       (update_account 0 1
          \<lparr> account_form.account_name = ''Takings'', account_form.account_type = Liability \<rparr>
          seeded_db)
       = \<lparr> account.id = 1, account.company_id = 0, account.account_name = ''Takings'',
           account.account_type = Liability, is_default = True \<rparr> # tl (six_defaults 1 0)"
    by (simp add: update_account_def accounts_update_policy_def owns_def seeded_db_eq
        six_defaults_def)
  have d: "database.accounts
       (snd (account_onSubmit (Some seeded_company)
          \<lparr> account_form.account_name = ''Takings'', account_form.account_type = Liability \<rparr>
          (initial_page \<lparr> editingAccount := Some (hd (six_defaults 1 0)), showModal := True \<rparr>,
           seeded_db)))
       = \<lparr> account.id = 1, account.company_id = 0, account.account_name = ''Takings'',
           account.account_type = Liability, is_default = True \<rparr> # tl (six_defaults 1 0)"
    by (simp add: account_onSubmit_def fetchAccounts_def closeModal_def initial_page_def
        seeded_db_eq six_defaults_def Let_def)
  have e: "database.accounts (delete_account 0 1 seeded_db) = six_defaults 1 0"
    by (simp add: delete_account_def accounts_delete_policy_def Let_def seeded_db_eq
        six_defaults_def)
  from a b c d e show ?thesis by blast
qed

end
